theory Spec2Isabelle
  imports Complex_Main "HOL-Library.Word"
begin

section \<open>Scalars\<close>

text \<open>
  The C++ scalars are modelled as extended reals with a not-a-number value: the finite values
  are real numbers, the special values follow IEEE 754. Arithmetic in \<^verbatim>\<open>double\<close> is taken
  without rounding, and the sign of zero is left out. Where the code stores a \<^verbatim>\<open>double\<close>
  into a \<^verbatim>\<open>float\<close>, the value is rounded by \<open>to_float\<close> below.
\<close>

datatype scalar = Fin real | PInf | NInf | NaN

fun isnan :: "scalar \<Rightarrow> bool" where
  "isnan NaN = True"
| "isnan _ = False"

fun isfinite :: "scalar \<Rightarrow> bool" where
  "isfinite (Fin _) = True"
| "isfinite _ = False"

text \<open>\<^verbatim>\<open>a < b\<close>: false as soon as one side is NaN.\<close>

fun sc_less :: "scalar \<Rightarrow> scalar \<Rightarrow> bool" where
  "sc_less NaN _ = False"
| "sc_less _ NaN = False"
| "sc_less (Fin a) (Fin b) = (a < b)"
| "sc_less NInf NInf = False"
| "sc_less NInf _ = True"
| "sc_less PInf _ = False"
| "sc_less (Fin _) PInf = True"
| "sc_less (Fin _) NInf = False"

text \<open>\<^verbatim>\<open>a <= b\<close> and \<^verbatim>\<open>a == b\<close>.\<close>

fun sc_eq :: "scalar \<Rightarrow> scalar \<Rightarrow> bool" where
  "sc_eq NaN _ = False"
| "sc_eq _ NaN = False"
| "sc_eq a b = (a = b)"

definition sc_le :: "scalar \<Rightarrow> scalar \<Rightarrow> bool" where
  "sc_le a b = (sc_less a b \<or> sc_eq a b)"

fun sc_neg :: "scalar \<Rightarrow> scalar" where
  "sc_neg (Fin a) = Fin (- a)"
| "sc_neg PInf = NInf"
| "sc_neg NInf = PInf"
| "sc_neg NaN = NaN"

fun sc_add :: "scalar \<Rightarrow> scalar \<Rightarrow> scalar" where
  "sc_add NaN _ = NaN"
| "sc_add _ NaN = NaN"
| "sc_add (Fin a) (Fin b) = Fin (a + b)"
| "sc_add PInf NInf = NaN"
| "sc_add NInf PInf = NaN"
| "sc_add PInf _ = PInf"
| "sc_add NInf _ = NInf"
| "sc_add (Fin _) b = b"

definition sc_sub :: "scalar \<Rightarrow> scalar \<Rightarrow> scalar" where
  "sc_sub a b = sc_add a (sc_neg b)"

fun sc_mul :: "scalar \<Rightarrow> scalar \<Rightarrow> scalar" where
  "sc_mul NaN _ = NaN"
| "sc_mul _ NaN = NaN"
| "sc_mul (Fin a) (Fin b) = Fin (a * b)"
| "sc_mul (Fin a) PInf = (if a = 0 then NaN else if 0 < a then PInf else NInf)"
| "sc_mul (Fin a) NInf = (if a = 0 then NaN else if 0 < a then NInf else PInf)"
| "sc_mul PInf (Fin b) = (if b = 0 then NaN else if 0 < b then PInf else NInf)"
| "sc_mul NInf (Fin b) = (if b = 0 then NaN else if 0 < b then NInf else PInf)"
| "sc_mul PInf PInf = PInf"
| "sc_mul PInf NInf = NInf"
| "sc_mul NInf PInf = NInf"
| "sc_mul NInf NInf = PInf"

text \<open>\<^verbatim>\<open>a / b\<close>; zero is unsigned here, so a nonzero finite value over zero takes the sign of
  the numerator.\<close>

fun sc_div :: "scalar \<Rightarrow> scalar \<Rightarrow> scalar" where
  "sc_div NaN _ = NaN"
| "sc_div _ NaN = NaN"
| "sc_div (Fin a) (Fin b) =
     (if b = 0 then (if a = 0 then NaN else if 0 < a then PInf else NInf) else Fin (a / b))"
| "sc_div (Fin _) _ = Fin 0"
| "sc_div PInf (Fin b) = (if 0 \<le> b then PInf else NInf)"
| "sc_div NInf (Fin b) = (if 0 \<le> b then NInf else PInf)"
| "sc_div _ _ = NaN"

text \<open>\<^verbatim>\<open>std::sqrt\<close>.\<close>

fun sc_sqrt :: "scalar \<Rightarrow> scalar" where
  "sc_sqrt (Fin a) = (if a < 0 then NaN else Fin (sqrt a))"
| "sc_sqrt PInf = PInf"
| "sc_sqrt NInf = NaN"
| "sc_sqrt NaN = NaN"

text \<open>\<^verbatim>\<open>std::numeric_limits<float>::max()\<close>.\<close>

definition FLT_MAX :: scalar where
  "FLT_MAX = Fin 340282346638528859811704183484516925440"

subsection \<open>Narrowing to \<^verbatim>\<open>float\<close>\<close>

text \<open>
  The conversion of a \<^verbatim>\<open>double\<close> to a \<^verbatim>\<open>float\<close> (IEEE 754 binary32, round to nearest,
  ties to even). The exponent of a value is the largest \<open>e\<close> with \<open>2 ^ e \<le> \<bar>r\<bar>\<close>, kept
  between -126 (the subnormal range) and 127; the value is rounded to a multiple of
  \<open>2 ^ (e - 23)\<close>, and a result of magnitude \<open>2 ^ 128\<close> is infinite.
\<close>

fun exp_up :: "nat \<Rightarrow> real \<Rightarrow> int \<Rightarrow> int" where
  "exp_up 0 a e = e"
| "exp_up (Suc n) a e = (if 2 \<le> a then exp_up n (a / 2) (e + 1) else e)"

fun exp_down :: "nat \<Rightarrow> real \<Rightarrow> int \<Rightarrow> int" where
  "exp_down 0 a e = e"
| "exp_down (Suc n) a e = (if a < 1 then exp_down n (a * 2) (e - 1) else e)"

definition float_exponent :: "real \<Rightarrow> int" where
  "float_exponent r = (if 1 \<le> \<bar>r\<bar> then exp_up 127 \<bar>r\<bar> 0 else exp_down 126 \<bar>r\<bar> 0)"

definition pow2 :: "int \<Rightarrow> real" where
  "pow2 e = (if 0 \<le> e then 2 ^ nat e else 1 / 2 ^ nat (- e))"

definition round_half_even :: "real \<Rightarrow> int" where
  "round_half_even q =
     (let n = \<lfloor>q\<rfloor>; f = q - of_int n
      in if f < 1 / 2 then n else if 1 / 2 < f then n + 1 else if even n then n else n + 1)"

fun to_float :: "scalar \<Rightarrow> scalar" where
  "to_float (Fin r) =
     (if r = 0 then Fin 0
      else
        (let ulp = pow2 (float_exponent r - 23);
             v = of_int (round_half_even (r / ulp)) * ulp
         in if pow2 128 \<le> v then PInf else if v \<le> - pow2 128 then NInf else Fin v))"
| "to_float x = x"

section \<open>Vectors and matrices\<close>

text \<open>A dense vector is the list of its coefficients, a dense matrix the list of its rows.\<close>

type_synonym vec = "scalar list"
type_synonym mat = "scalar list list"

definition vec_zero :: "nat \<Rightarrow> vec" where
  "vec_zero n = replicate n (Fin 0)"

definition mat_zero :: "nat \<Rightarrow> nat \<Rightarrow> mat" where
  "mat_zero r c = replicate r (replicate c (Fin 0))"

definition sc_sum :: "scalar list \<Rightarrow> scalar" where
  "sc_sum xs = foldl sc_add (Fin 0) xs"

text \<open>\<^verbatim>\<open>v.squaredNorm()\<close> and \<^verbatim>\<open>v.norm()\<close> (L2 norm of a vector, Frobenius norm of the
  coefficients of a matrix).\<close>

definition squaredNorm :: "scalar list \<Rightarrow> scalar" where
  "squaredNorm v = sc_sum (map (\<lambda>a. sc_mul a a) v)"

definition norm_l2 :: "scalar list \<Rightarrow> scalar" where
  "norm_l2 v = sc_sqrt (squaredNorm v)"

definition vec_neg :: "vec \<Rightarrow> vec" where
  "vec_neg v = map sc_neg v"

text \<open>\<^verbatim>\<open>v += delta\<close>, coefficient by coefficient.\<close>

definition vec_add :: "vec \<Rightarrow> vec \<Rightarrow> vec" where
  "vec_add v d = map (\<lambda>(a, b). sc_add a b) (zip v d)"

definition dot :: "vec \<Rightarrow> vec \<Rightarrow> scalar" where
  "dot a b = sc_sum (map (\<lambda>(x, y). sc_mul x y) (zip a b))"

definition mat_vec :: "mat \<Rightarrow> vec \<Rightarrow> vec" where
  "mat_vec M v = map (\<lambda>row. dot row v) M"

text \<open>\<^verbatim>\<open>M(i, j)\<close>.\<close>

definition coeff :: "mat \<Rightarrow> nat \<Rightarrow> nat \<Rightarrow> scalar" where
  "coeff M i j = M ! i ! j"

definition is_square :: "nat \<Rightarrow> mat \<Rightarrow> bool" where
  "is_square n M = (length M = n \<and> list_all (\<lambda>row. length row = n) M)"

text \<open>
  \<^verbatim>\<open>M.triangularView<Lower>() = M.triangularView<Upper>().transpose()\<close>: every coefficient
  on or below the diagonal is overwritten with its mirror image from the upper triangle; the
  coefficients above the diagonal stay.
\<close>

definition fill_lower :: "mat \<Rightarrow> mat" where
  "fill_lower M =
     map (\<lambda>i. map (\<lambda>j. if j \<le> i then coeff M j i else coeff M i j) [0..<length (M ! i)])
       [0..<length M]"

section \<open>The Gauss-Newton driver (\<^verbatim>\<open>tinyopt::gn\<close>)\<close>

subsection \<open>Options and output\<close>

text \<open>\<^verbatim>\<open>struct Options\<close>; the logging fields (\<^verbatim>\<open>log_x\<close>, \<^verbatim>\<open>oss\<close>) only select what is
  printed and are left out. The two thresholds are \<^verbatim>\<open>float\<close>s: the default of
  \<^verbatim>\<open>min_grad_norm2\<close> is the \<^verbatim>\<open>float\<close> nearest to \<open>1e-12\<close>, which is
  \<open>2305843 / 2 ^ 61\<close> (\<open>to_float_default_min_grad_norm2\<close>).\<close>

record Options =
  ldlt :: bool
  JtJ_is_full :: bool
  opt_num_iters :: "16 word"
  min_delta_norm2 :: scalar
  min_grad_norm2 :: scalar
  max_total_failures :: "8 word"
  max_consec_failures :: "8 word"
  export_JtJ :: bool

definition default_Options :: Options where
  "default_Options = \<lparr> ldlt = True, JtJ_is_full = True, opt_num_iters = 100,
     min_delta_norm2 = Fin 0, min_grad_norm2 = Fin (2305843 / 2 ^ 61),
     max_total_failures = 1, max_consec_failures = 1, export_JtJ = True \<rparr>"

datatype StopReason =
    kMaxIters
  | kMinDeltaNorm
  | kMinGradNorm
  | kMaxFails
  | kMaxConsecFails
  | kSystemHasNaNs
  | kSolverFailed
  | kNoResiduals

record Output =
  last_err2 :: scalar
  stop_reason :: StopReason
  num_residuals :: "16 word"
  num_iters :: "16 word"
  num_failures :: "8 word"
  num_consec_failures :: "8 word"
  last_JtJ :: mat
  errs2 :: "scalar list"
  deltas2 :: "scalar list"
  successes :: "bool list"

definition Succeeded :: "Output \<Rightarrow> bool" where
  "Succeeded out = (stop_reason out \<noteq> kSystemHasNaNs \<and> stop_reason out \<noteq> kSolverFailed \<and>
     stop_reason out \<noteq> kNoResiduals)"

definition Converged :: "Output \<Rightarrow> bool" where
  "Converged out = (stop_reason out = kMinDeltaNorm \<or> stop_reason out = kMinGradNorm)"

subsection \<open>Collaborators\<close>

text \<open>
  The dense factorisations belong to the linear-algebra library (Eigen) and are parameters of
  the model: \<^verbatim>\<open>SelfAdjointView<Upper>(M).ldlt()\<close> with its \<^verbatim>\<open>isPositive()\<close> and
  \<^verbatim>\<open>solve(b)\<close>, and \<^verbatim>\<open>M.inverse()\<close>. So is \<open>unassigned_matrix n\<close>, the \<open>n\<close> by \<open>n\<close>
  coefficients found in a matrix of fixed size that was constructed and never assigned.
\<close>

record linalg =
  ldlt_isPositive :: "mat \<Rightarrow> bool"
  ldlt_solve :: "mat \<Rightarrow> vec \<Rightarrow> vec"
  inverse :: "mat \<Rightarrow> mat"
  unassigned_matrix :: "nat \<Rightarrow> mat"

definition mat_neg :: "mat \<Rightarrow> mat" where
  "mat_neg M = map (map sc_neg) M"

text \<open>
  \<^verbatim>\<open>traits::params_trait<ParametersType>\<close>: the compile-time dimension (\<open>None\<close> is
  \<^verbatim>\<open>Eigen::Dynamic\<close>), the run-time dimension and the update \<^verbatim>\<open>pluseq\<close>.
\<close>

record 'x params_trait =
  Dims :: "nat option"
  dims :: "'x \<Rightarrow> nat"
  pluseq :: "'x \<Rightarrow> vec \<Rightarrow> 'x"

text \<open>The default trait of a dense vector of fixed size \<open>n\<close>: \<^verbatim>\<open>v += delta\<close>.\<close>

definition vec_trait :: "nat \<Rightarrow> vec params_trait" where
  "vec_trait n = \<lparr> Dims = Some n, dims = length, pluseq = vec_add \<rparr>"

text \<open>
  What the accumulation function returns: a scalar, or a pair (error, number of residuals).
  The function itself receives \<^verbatim>\<open>(X, JtJ, Jt_res)\<close> and returns them updated; it is
  taken to be a function of its arguments.
\<close>

datatype acc_output = RetScalar scalar | RetPair scalar int

type_synonym 'x ResidualsFunc = "'x \<Rightarrow> mat \<Rightarrow> vec \<Rightarrow> acc_output \<times> mat \<times> vec"

subsection \<open>The iteration\<close>

text \<open>The variables that live across iterations of the loop of \<^verbatim>\<open>GN\<close>.\<close>

record 'x gn_state =
  X :: 'x
  X_last_good :: 'x
  already_rolled_true :: bool
  out :: Output

text \<open>\<^verbatim>\<open>max_tries\<close>.\<close>

definition max_tries :: "Options \<Rightarrow> 8 word" where
  "max_tries options =
     (if 0 < unat (max_consec_failures options) then max 1 (max_total_failures options) else 255)"

text \<open>
  Lines 151-180, the linear solve. The inner \<^verbatim>\<open>for\<close> leaves through \<^verbatim>\<open>break\<close> in its first
  round on every path, so it is a conditional. The result is
  \<open>(dX, JtJ, solver_failed, out)\<close>; \<open>JtJ\<close> comes back because the explicit-inverse branch
  fills its lower triangle in place.
\<close>

definition GN_solve ::
  "linalg \<Rightarrow> Options \<Rightarrow> vec \<Rightarrow> bool \<Rightarrow> mat \<Rightarrow> vec \<Rightarrow> Output \<Rightarrow> vec \<times> mat \<times> bool \<times> Output" where
  "GN_solve la options dX0 skip_solver JtJ Jt_res ou =
     (if \<not> skip_solver \<and> unat (num_consec_failures ou) \<le> unat (max_tries options) then
        (if ldlt options then
           (if ldlt_isPositive la JtJ then
              (vec_neg (ldlt_solve la JtJ Jt_res), JtJ, False, ou)
            else
              (dX0, JtJ, True,
               ou\<lparr>num_consec_failures := num_consec_failures ou + 1,
                   num_failures := num_failures ou + 1\<rparr>))
         else
           (let JtJ' = (if \<not> JtJ_is_full options then fill_lower JtJ else JtJ)
            in (mat_vec (mat_neg (inverse la JtJ')) Jt_res, JtJ', False, ou)))
      else (dX0, JtJ, skip_solver, ou))"

text \<open>Lines 200-255, the good step: the pair is (leave the loop, new state).
  \<^verbatim>\<open>out.last_err2\<close> is a \<^verbatim>\<open>float\<close>, so the assignment of line 206 narrows the error.\<close>

definition GN_good_step ::
  "'x params_trait \<Rightarrow> Options \<Rightarrow> scalar \<Rightarrow> vec \<Rightarrow> mat \<Rightarrow> 'x gn_state \<Rightarrow> bool \<times> 'x gn_state" where
  "GN_good_step pt options err dX JtJ s =
     (let ou = out s;
          ou1 = ou\<lparr>successes := successes ou @ [True]\<rparr>;
          Xlg = (if 0 < unat (num_iters ou1) then X s else X_last_good s);
          X' = pluseq pt (X s) dX;
          ou2 = ou1\<lparr>last_err2 := to_float err\<rparr>;
          ou3 = (if export_JtJ options then ou2\<lparr>last_JtJ := JtJ\<rparr> else ou2);
          ou4 = ou3\<lparr>num_consec_failures := 0\<rparr>
      in (False, s\<lparr>X := X', X_last_good := Xlg, already_rolled_true := False, out := ou4\<rparr>))"

text \<open>The bad step.\<close>

definition GN_bad_step :: "Options \<Rightarrow> 'x gn_state \<Rightarrow> bool \<times> 'x gn_state" where
  "GN_bad_step options s =
     (let ou = out s;
          ou1 = ou\<lparr>successes := successes ou @ [False]\<rparr>;
          s1 = (if \<not> already_rolled_true s
                then s\<lparr>X := X_last_good s, already_rolled_true := True\<rparr> else s);
          ou2 = ou1\<lparr>num_failures := num_failures ou1 + 1\<rparr>;
          ou3 = ou2\<lparr>num_consec_failures := num_consec_failures ou2 + 1\<rparr>
      in if 0 < unat (max_consec_failures options) \<and>
            unat (max_consec_failures options) \<le> unat (num_consec_failures ou3)
         then (True, s1\<lparr>out := ou3\<lparr>stop_reason := kMaxConsecFails\<rparr>\<rparr>)
         else if 0 < unat (max_total_failures options) \<and>
            unat (max_total_failures options) \<le> unat (num_failures ou3)
         then (True, s1\<lparr>out := ou3\<lparr>stop_reason := kMaxFails\<rparr>\<rparr>)
         else (False, s1\<lparr>out := ou3\<rparr>))"

text \<open>Lines 256-270, the checks that close an iteration.\<close>

definition GN_final_checks ::
  "Options \<Rightarrow> bool \<Rightarrow> bool \<Rightarrow> scalar \<Rightarrow> scalar \<Rightarrow> 'x gn_state \<Rightarrow> bool \<times> 'x gn_state" where
  "GN_final_checks options system_has_nans solver_failed dX_norm2 Jt_res_norm2 s =
     (if system_has_nans then (True, s\<lparr>out := (out s)\<lparr>stop_reason := kSystemHasNaNs\<rparr>\<rparr>)
      else if solver_failed then (True, s\<lparr>out := (out s)\<lparr>stop_reason := kSolverFailed\<rparr>\<rparr>)
      else if sc_less (Fin 0) (min_delta_norm2 options) \<and>
              sc_less dX_norm2 (min_delta_norm2 options)
      then (True, s\<lparr>out := (out s)\<lparr>stop_reason := kMinDeltaNorm\<rparr>\<rparr>)
      else if sc_less (Fin 0) (min_grad_norm2 options) \<and>
              sc_less Jt_res_norm2 (min_grad_norm2 options)
      then (True, s\<lparr>out := (out s)\<lparr>stop_reason := kMinGradNorm\<rparr>\<rparr>)
      else (False, s))"

text \<open>
  Lines 182-270, from the solved step to the end of the iteration. When the squared norm of
  the step is NaN the code sets \<^verbatim>\<open>system_has_nans\<close> and leaves the loop with \<^verbatim>\<open>break\<close> at
  once (line 192), before the history is written and before the stop reason is assigned.
  The histories are vectors of \<^verbatim>\<open>float\<close>: what is appended is narrowed.
\<close>

definition GN_check_step ::
  "'x params_trait \<Rightarrow> Options \<Rightarrow> scalar \<Rightarrow> vec \<Rightarrow> mat \<Rightarrow> vec \<Rightarrow> bool \<Rightarrow> 'x gn_state \<Rightarrow>
     bool \<times> 'x gn_state" where
  "GN_check_step pt options err dX JtJ Jt_res solver_failed s =
     (let dX_norm2 = (if solver_failed then Fin 0 else squaredNorm dX);
          Jt_res_norm2 = (if sc_eq (min_grad_norm2 options) (Fin 0) then Fin 0
                          else squaredNorm Jt_res)
      in if isnan dX_norm2 then (True, s)
         else
           (let system_has_nans = False;
                derr = sc_sub err (last_err2 (out s));
                s1 = s\<lparr>out := (out s)\<lparr>errs2 := errs2 (out s) @ [to_float err],
                                        deltas2 := deltas2 (out s) @ [to_float dX_norm2]\<rparr>\<rparr>;
                (brk, s2) = (if sc_less derr (Fin 0) \<and> \<not> solver_failed
                             then GN_good_step pt options err dX JtJ s1
                             else GN_bad_step options s1)
            in if brk then (True, s2)
               else GN_final_checks options system_has_nans solver_failed dX_norm2
                      Jt_res_norm2 s2))"

text \<open>\<^verbatim>\<open>size\<close>, and the value of \<^verbatim>\<open>dX\<close> after \<^verbatim>\<open>dX.setZero()\<close>: a vector declared with a
  dynamic size and never assigned has no coefficient.\<close>

definition gn_size :: "'x params_trait \<Rightarrow> 'x \<Rightarrow> nat" where
  "gn_size pt x = (case Dims pt of None \<Rightarrow> dims pt x | Some d \<Rightarrow> d)"

definition dX_zero :: "'x params_trait \<Rightarrow> vec" where
  "dX_zero pt = (case Dims pt of None \<Rightarrow> [] | Some d \<Rightarrow> vec_zero d)"

text \<open>
  The body of the loop (lines 125-270). \<^verbatim>\<open>size\<close> (here \<open>sz\<close>) is computed once, before
  the loop. The pair
  is (leave the loop through \<^verbatim>\<open>break\<close>, new state).
\<close>

definition GN_iter ::
  "linalg \<Rightarrow> 'x params_trait \<Rightarrow> 'x ResidualsFunc \<Rightarrow> Options \<Rightarrow> nat \<Rightarrow> 'x gn_state \<Rightarrow>
     bool \<times> 'x gn_state" where
  "GN_iter la pt acc options sz s =
     (let (output, JtJ, Jt_res) = acc (X s) (mat_zero sz sz) (vec_zero sz);
          (err, nerr) = (case output of RetScalar e \<Rightarrow> (e, 1) | RetPair e n \<Rightarrow> (e, n));
          skip_solver = (nerr = 0);
          s1 = s\<lparr>out := (out s)\<lparr>num_residuals := word_of_int nerr\<rparr>\<rparr>;
          s2 = (if nerr = 0
                then s1\<lparr>out := (out s1)\<lparr>errs2 := errs2 (out s1) @ [Fin 0],
                                          deltas2 := deltas2 (out s1) @ [Fin 0],
                                          successes := successes (out s1) @ [False]\<rparr>\<rparr>
                else s1)
      in if nerr = 0 \<and> num_iters (out s2) = 0
         then (True, s2\<lparr>out := (out s2)\<lparr>stop_reason := kNoResiduals\<rparr>\<rparr>)
         else
           (let (dX, JtJ', solver_failed, ou) =
                  GN_solve la options (dX_zero pt) skip_solver JtJ Jt_res (out s2)
            in GN_check_step pt options err dX JtJ' Jt_res solver_failed (s2\<lparr>out := ou\<rparr>)))"

subsection \<open>The loop\<close>

text \<open>
  \<^verbatim>\<open>for (; out.num_iters < options.num_iters + 1; ++out.num_iters)\<close>. Both sides of the
  comparison are promoted to \<^verbatim>\<open>int\<close>; the counter is a \<^verbatim>\<open>uint16_t\<close> and wraps, so with
  \<^verbatim>\<open>options.num_iters = 65535\<close> the condition never fails and the loop need not end:
  \<open>None\<close> is the run that does not return.
\<close>

partial_function (option) GN_loop ::
  "linalg \<Rightarrow> 'x params_trait \<Rightarrow> 'x ResidualsFunc \<Rightarrow> Options \<Rightarrow> nat \<Rightarrow> 'x gn_state \<Rightarrow>
     'x gn_state option" where
  "GN_loop la pt acc options sz s =
     (if unat (num_iters (out s)) < unat (opt_num_iters options) + 1
      then (case GN_iter la pt acc options sz s of
              (brk, s') \<Rightarrow>
                if brk then Some s'
                else GN_loop la pt acc options sz
                       (s'\<lparr>out := (out s')\<lparr>num_iters := num_iters (out s') + 1\<rparr>\<rparr>))
      else Some s)"

declare GN_loop.simps [code]

text \<open>
  The state before the loop (lines 107-123). \<^verbatim>\<open>errs2\<close> is reserved; \<^verbatim>\<open>deltas2\<close> and
  \<^verbatim>\<open>successes\<close> get one element each from \<^verbatim>\<open>emplace_back(out.num_iters + 2)\<close>, the value 2
  converted to \<^verbatim>\<open>float\<close> and to \<^verbatim>\<open>bool\<close>. Without \<^verbatim>\<open>export_JtJ\<close> the matrix
  \<^verbatim>\<open>last_JtJ\<close> stays as constructed: empty when the size is dynamic, and of the fixed size
  with unassigned coefficients otherwise.
\<close>

definition GN_init :: "linalg \<Rightarrow> 'x params_trait \<Rightarrow> Options \<Rightarrow> 'x \<Rightarrow> 'x gn_state" where
  "GN_init la pt options x =
     \<lparr> X = x, X_last_good = x, already_rolled_true = True,
       out = \<lparr> last_err2 = FLT_MAX, stop_reason = kMaxIters, num_residuals = 0,
               num_iters = 0, num_failures = 0, num_consec_failures = 0,
               last_JtJ = (if export_JtJ options then mat_zero (gn_size pt x) (gn_size pt x)
                           else (case Dims pt of None \<Rightarrow> []
                                 | Some d \<Rightarrow> unassigned_matrix la d)),
               errs2 = [], deltas2 = [Fin 2], successes = [True] \<rparr> \<rparr>"

text \<open>\<^verbatim>\<open>GN(X, acc, options)\<close>: the returned record together with the value left in \<^verbatim>\<open>X\<close>.\<close>

definition GN ::
  "linalg \<Rightarrow> 'x params_trait \<Rightarrow> 'x \<Rightarrow> 'x ResidualsFunc \<Rightarrow> Options \<Rightarrow> (Output \<times> 'x) option" where
  "GN la pt x acc options =
     map_option (\<lambda>s. (out s, X s))
       (GN_loop la pt acc options (gn_size pt x) (GN_init la pt options x))"

text \<open>
  The states the loop passes through: the state before the loop, and the state after each
  iteration that did not leave through \<^verbatim>\<open>break\<close>, with the counter advanced.
\<close>

inductive GN_reachable ::
  "linalg \<Rightarrow> 'x params_trait \<Rightarrow> 'x ResidualsFunc \<Rightarrow> Options \<Rightarrow> 'x \<Rightarrow> 'x gn_state \<Rightarrow> bool"
  for la pt acc options x where
    init: "GN_reachable la pt acc options x (GN_init la pt options x)"
  | step: "GN_reachable la pt acc options x s \<Longrightarrow>
           unat (num_iters (out s)) < unat (opt_num_iters options) + 1 \<Longrightarrow>
           GN_iter la pt acc options (gn_size pt x) s = (False, s') \<Longrightarrow>
           GN_reachable la pt acc options x
             (s'\<lparr>out := (out s')\<lparr>num_iters := num_iters (out s') + 1\<rparr>\<rparr>)"

section \<open>The solvers (\<^verbatim>\<open>tinyopt::solvers\<close>)\<close>

subsection \<open>Gradient clamping (\<^verbatim>\<open>SolverBase::Clamp\<close>)\<close>

text \<open>\<^verbatim>\<open>std::max(a, b)\<close> is \<^verbatim>\<open>(a < b) ? b : a\<close> and \<^verbatim>\<open>std::min(a, b)\<close> is
  \<^verbatim>\<open>(b < a) ? b : a\<close>, which is what the coefficient-wise \<^verbatim>\<open>cwiseMax\<close> and
  \<^verbatim>\<open>cwiseMin\<close> apply to each coefficient.\<close>

definition sc_max :: "scalar \<Rightarrow> scalar \<Rightarrow> scalar" where
  "sc_max a b = (if sc_less a b then b else a)"

definition sc_min :: "scalar \<Rightarrow> scalar \<Rightarrow> scalar" where
  "sc_min a b = (if sc_less b a then b else a)"

fun sc_abs :: "scalar \<Rightarrow> scalar" where
  "sc_abs (Fin a) = Fin \<bar>a\<bar>"
| "sc_abs PInf = PInf"
| "sc_abs NInf = PInf"
| "sc_abs NaN = NaN"

text \<open>\<^verbatim>\<open>Clamp(g, minmax)\<close> on a vector gradient: the pair is (returned flag, new \<open>g\<close>).\<close>

definition Clamp :: "vec \<Rightarrow> scalar \<Rightarrow> bool \<times> vec" where
  "Clamp g minmax =
     (if sc_eq minmax (Fin 0) then (False, g)
      else (True, map (\<lambda>a. sc_min (sc_max a (sc_neg minmax)) minmax) g))"

subsection \<open>What a user function returns\<close>

text \<open>A scalar, a pair (error, count), or a vector, matrix or array, given by the list of
  its coefficients: \<^verbatim>\<open>norm()\<close> and \<^verbatim>\<open>size()\<close> depend on nothing else.\<close>

datatype raw_return = RawScalar scalar | RawPair scalar int | RawMatrix "scalar list"

text \<open>A failed \<^verbatim>\<open>static_assert\<close>, with its message.\<close>

datatype compile_error = StaticAssert string

subsection \<open>\<^verbatim>\<open>SolverGN\<close>\<close>

text \<open>
  The options \<^verbatim>\<open>SolverGN\<close> reads from \<^verbatim>\<open>solvers::Options2\<close> (declared in
  \<^verbatim>\<open>solvers/options.h\<close>); the fields of \<^verbatim>\<open>options_.err\<close> carry the prefix \<open>err_\<close>.
\<close>

record SolverOptions =
  use_ldlt :: bool
  H_is_full :: bool
  grad_clipping :: scalar
  check_min_H_diag :: scalar
  err_use_squared_norm :: bool
  err_downscale_by_2 :: bool
  err_normalize :: bool

text \<open>The members \<^verbatim>\<open>options_\<close>, \<^verbatim>\<open>H_\<close>, \<^verbatim>\<open>grad_\<close>, \<^verbatim>\<open>err_\<close> and \<^verbatim>\<open>nerr_\<close>.\<close>

record SolverGN =
  gn_options :: SolverOptions
  gn_H :: mat
  gn_grad :: vec
  gn_err :: scalar
  gn_nerr :: int

text \<open>The template parameters: the compile-time dimension (\<open>None\<close> is \<^verbatim>\<open>Dynamic\<close>) and
  whether the Hessian type is a sparse matrix.\<close>

record HessianType =
  H_Dims :: "nat option"
  is_sparse_matrix :: bool

text \<open>
  The helpers of \<^verbatim>\<open>tinyopt/math.h\<close> that \<^verbatim>\<open>Solve\<close> calls are parameters:
  \<^verbatim>\<open>SolveLDLT(H, g)\<close>, which returns no value when the factorisation fails,
  \<^verbatim>\<open>H.inverse()\<close> and \<^verbatim>\<open>FloatEpsilon<Scalar>()\<close>.
\<close>

record math_backend =
  SolveLDLT :: "mat \<Rightarrow> vec \<Rightarrow> vec option"
  mat_inverse :: "mat \<Rightarrow> mat"
  FloatEpsilon :: scalar

text \<open>A residuals function receives \<^verbatim>\<open>(x, grad, H)\<close> and returns them updated.\<close>

type_synonym 'x ResFunc2 = "'x \<Rightarrow> vec \<Rightarrow> mat \<Rightarrow> raw_return \<times> vec \<times> mat"

text \<open>\<^verbatim>\<open>SolverGN::GetAccFunc\<close> (lines 119-134).\<close>

definition SolverGN_GetAccFunc ::
  "'x ResFunc2 \<Rightarrow> 'x \<Rightarrow> vec \<Rightarrow> mat \<Rightarrow> (scalar \<times> int) \<times> vec \<times> mat" where
  "SolverGN_GetAccFunc res_func x grad H =
     (let (ret, grad', H') = res_func x grad H
      in ((case ret of
             RawScalar e \<Rightarrow> (e, 1)
           | RawPair e n \<Rightarrow> (e, n)
           | RawMatrix cs \<Rightarrow> (norm_l2 cs, int (length cs))), grad', H'))"

text \<open>\<^verbatim>\<open>resize\<close>, \<^verbatim>\<open>ResizeIfNeeded\<close> and \<^verbatim>\<open>clear\<close>. A resized buffer is taken to hold
  zeros; \<^verbatim>\<open>Build\<close> clears it before it is read.\<close>

definition SolverGN_resize :: "nat \<Rightarrow> SolverGN \<Rightarrow> bool \<times> SolverGN" where
  "SolverGN_resize d s =
     (if length (gn_grad s) \<noteq> d \<or> length (gn_H s) \<noteq> d
      then (True, s\<lparr>gn_H := mat_zero d d, gn_grad := vec_zero d\<rparr>)
      else (False, s))"

definition SolverGN_ResizeIfNeeded ::
  "HessianType \<Rightarrow> 'x params_trait \<Rightarrow> 'x \<Rightarrow> SolverGN \<Rightarrow> bool \<times> SolverGN" where
  "SolverGN_ResizeIfNeeded ht pt x s =
     (if H_Dims ht = None \<and> length (gn_grad s) \<noteq> dims pt x
      then SolverGN_resize (dims pt x) s
      else (False, s))"

definition SolverGN_clear :: "SolverGN \<Rightarrow> SolverGN" where
  "SolverGN_clear s =
     s\<lparr>gn_H := map (map (\<lambda>_. Fin 0)) (gn_H s), gn_grad := map (\<lambda>_. Fin 0) (gn_grad s)\<rparr>"

text \<open>\<^verbatim>\<open>SolverGN::Accumulate\<close> (lines 167-178).\<close>

definition SolverGN_Accumulate :: "'x ResFunc2 \<Rightarrow> 'x \<Rightarrow> SolverGN \<Rightarrow> bool \<times> SolverGN" where
  "SolverGN_Accumulate res_func x s =
     (let ((e, ne), grad', H') = SolverGN_GetAccFunc res_func x (gn_grad s) (gn_H s);
          e1 = (if \<not> err_use_squared_norm (gn_options s) then sc_sqrt e else e);
          e2 = (if err_downscale_by_2 (gn_options s) then sc_mul e1 (Fin (1 / 2)) else e1);
          e3 = (if err_normalize (gn_options s) \<and> 0 < ne then sc_div e2 (Fin (real_of_int ne))
                else e2)
      in (0 < ne, s\<lparr>gn_grad := grad', gn_H := H', gn_err := e3, gn_nerr := ne\<rparr>))"

text \<open>\<^verbatim>\<open>H_.diagonal()\<close>.\<close>

definition diagonal :: "mat \<Rightarrow> vec" where
  "diagonal M = map (\<lambda>i. coeff M i i) [0..<length M]"

text \<open>\<^verbatim>\<open>SolverGN::Build\<close> (lines 180-211), for a dense Hessian.\<close>

definition SolverGN_Build ::
  "HessianType \<Rightarrow> 'x params_trait \<Rightarrow> 'x \<Rightarrow> 'x ResFunc2 \<Rightarrow> bool \<Rightarrow> SolverGN \<Rightarrow> bool \<times> SolverGN" where
  "SolverGN_Build ht pt x res_func resize_and_clear s =
     (let s1 = (if resize_and_clear then SolverGN_clear (snd (SolverGN_ResizeIfNeeded ht pt x s))
                else s);
          (success, s2) = SolverGN_Accumulate res_func x s1
      in if \<not> success then (False, s2)
         else
           (let s3 = s2\<lparr>gn_grad := snd (Clamp (gn_grad s2) (grad_clipping (gn_options s2)))\<rparr>
            in if sc_less (Fin 0) (check_min_H_diag (gn_options s3)) \<and>
                  list_ex (\<lambda>a. sc_less (sc_abs a) (check_min_H_diag (gn_options s3)))
                    (diagonal (gn_H s3))
               then (False, s3)
               else if \<not> H_is_full (gn_options s3) \<and> \<not> use_ldlt (gn_options s3)
               then (True, s3\<lparr>gn_H := fill_lower (gn_H s3)\<rparr>)
               else (True, s3)))"

text \<open>\<^verbatim>\<open>SolverGN::Solve\<close> (lines 213-231): \<open>None\<close> is \<^verbatim>\<open>std::nullopt\<close>.\<close>

definition SolverGN_Solve :: "math_backend \<Rightarrow> HessianType \<Rightarrow> SolverGN \<Rightarrow> vec option" where
  "SolverGN_Solve mb ht s =
     (if gn_nerr s = 0 then None
      else if use_ldlt (gn_options s) \<or> is_sparse_matrix ht then
        (case SolveLDLT mb (gn_H s) (gn_grad s) of
           Some dx \<Rightarrow> Some (vec_neg dx)
         | None \<Rightarrow> None)
      else if H_Dims ht = Some 1 then
        (if sc_less (FloatEpsilon mb) (coeff (gn_H s) 0 0)
         then Some (mat_vec (mat_neg (mat_inverse mb (gn_H s))) (gn_grad s))
         else Some (vec_zero (length (gn_grad s))))
      else Some (mat_vec (mat_neg (mat_inverse mb (gn_H s))) (gn_grad s)))"

subsection \<open>\<^verbatim>\<open>SolverGD\<close>\<close>

text \<open>The options \<^verbatim>\<open>SolverGD\<close> reads from \<^verbatim>\<open>gd::SolverOptions\<close>.\<close>

record GDOptions =
  gd_grad_clipping :: scalar
  lr :: scalar

text \<open>The members \<^verbatim>\<open>options_\<close>, \<^verbatim>\<open>grad_\<close>, \<^verbatim>\<open>err_\<close> and \<^verbatim>\<open>nerr_\<close>.\<close>

record SolverGD =
  gd_options :: GDOptions
  gd_grad :: vec
  gd_err :: scalar
  gd_nerr :: int

text \<open>A first-order function receives \<^verbatim>\<open>(x, grad)\<close>; the Hessian argument, when the
  function has one, is a null pointer.\<close>

type_synonym 'x AccFunc1 = "'x \<Rightarrow> vec \<Rightarrow> raw_return \<times> vec"

text \<open>
  \<^verbatim>\<open>SolverGD::GetAccFunc\<close> (lines 100-128). The branch for a return that is neither a
  scalar nor a pair asserts at compile time that the returned type is a scalar, which a
  vector or matrix is not: such a function is rejected.
\<close>

definition SolverGD_GetAccFunc ::
  "'x AccFunc1 \<Rightarrow> 'x \<Rightarrow> vec \<Rightarrow> compile_error + ((scalar \<times> int) \<times> vec)" where
  "SolverGD_GetAccFunc acc x grad =
     (let (ret, grad') = acc x grad
      in (case ret of
            RawScalar e \<Rightarrow> Inr ((e, 1), grad')
          | RawPair e n \<Rightarrow> Inr ((e, n), grad')
          | RawMatrix cs \<Rightarrow>
              Inl (StaticAssert ''Your cost function must return one or a pair of scalars'')))"

definition SolverGD_ResizeIfNeeded ::
  "nat option \<Rightarrow> 'x params_trait \<Rightarrow> 'x \<Rightarrow> SolverGD \<Rightarrow> bool \<times> SolverGD" where
  "SolverGD_ResizeIfNeeded D pt x s =
     (if D = None \<and> length (gd_grad s) \<noteq> dims pt x
      then (True, s\<lparr>gd_grad := vec_zero (dims pt x)\<rparr>)
      else (False, s))"

definition SolverGD_clear :: "SolverGD \<Rightarrow> SolverGD" where
  "SolverGD_clear s = s\<lparr>gd_grad := map (\<lambda>_. Fin 0) (gd_grad s)\<rparr>"

text \<open>\<^verbatim>\<open>SolverGD::Accumulate\<close> (lines 143-151) and \<^verbatim>\<open>SolverGD::Build\<close> (lines 153-167).\<close>

definition SolverGD_Accumulate ::
  "'x AccFunc1 \<Rightarrow> 'x \<Rightarrow> SolverGD \<Rightarrow> compile_error + (bool \<times> SolverGD)" where
  "SolverGD_Accumulate acc x s =
     (case SolverGD_GetAccFunc acc x (gd_grad s) of
        Inl err \<Rightarrow> Inl err
      | Inr ((e, ne), grad') \<Rightarrow> Inr (0 < ne, s\<lparr>gd_grad := grad', gd_err := e, gd_nerr := ne\<rparr>))"

definition SolverGD_Build ::
  "nat option \<Rightarrow> 'x params_trait \<Rightarrow> 'x \<Rightarrow> 'x AccFunc1 \<Rightarrow> bool \<Rightarrow> SolverGD \<Rightarrow>
     compile_error + (bool \<times> SolverGD)" where
  "SolverGD_Build D pt x acc resize_and_clear s =
     (let s1 = (if resize_and_clear then SolverGD_clear (snd (SolverGD_ResizeIfNeeded D pt x s))
                else s)
      in (case SolverGD_Accumulate acc x s1 of
            Inl err \<Rightarrow> Inl err
          | Inr (ok, s2) \<Rightarrow>
              Inr (ok, s2\<lparr>gd_grad :=
                          snd (Clamp (gd_grad s2) (gd_grad_clipping (gd_options s2)))\<rparr>)))"

text \<open>\<^verbatim>\<open>SolverGD::Solve\<close> (lines 169-173).\<close>

definition SolverGD_Solve :: "SolverGD \<Rightarrow> vec option" where
  "SolverGD_Solve s =
     (if gd_nerr s = 0 then None
      else Some (map (sc_mul (sc_neg (lr (gd_options s)))) (gd_grad s)))"

section \<open>Concrete inputs\<close>

text \<open>
  A backend for systems of dimension one, to run the driver on concrete inputs: the inverse
  of the matrix \<open>(a)\<close> is \<open>(1 / a)\<close>, the factorisation of \<open>(a)\<close> is positive unless
  \<open>a < 0\<close>, and its solve divides by \<open>a\<close>. An unassigned matrix holds zeros here.
\<close>

fun la1_inverse :: "mat \<Rightarrow> mat" where
  "la1_inverse [[a]] = [[sc_div (Fin 1) a]]"
| "la1_inverse M = M"

fun la1_isPositive :: "mat \<Rightarrow> bool" where
  "la1_isPositive [[a]] = (\<not> sc_less a (Fin 0))"
| "la1_isPositive M = True"

fun la1_solve :: "mat \<Rightarrow> vec \<Rightarrow> vec" where
  "la1_solve [[a]] [b] = [sc_div b a]"
| "la1_solve M v = v"

definition la1 :: linalg where
  "la1 = \<lparr> ldlt_isPositive = la1_isPositive, ldlt_solve = la1_solve, inverse = la1_inverse,
           unassigned_matrix = (\<lambda>n. mat_zero n n) \<rparr>"

text \<open>An accumulation function that reports no residual: \<^verbatim>\<open>return std::make_pair(0.0, 0)\<close>.\<close>

fun acc_none :: "vec ResidualsFunc" where
  "acc_none x JtJ Jt_res = (RetPair (Fin 0) 0, JtJ, Jt_res)"

text \<open>One residual at \<open>x = 1\<close> (error 1, \<open>JtJ = 1\<close>, \<open>Jt_res = 1\<close>), no residual anywhere
  else.\<close>

fun acc_later :: "vec ResidualsFunc" where
  "acc_later x JtJ Jt_res =
     (if x = [Fin 1] then (RetScalar (Fin 1), [[Fin 1]], [Fin 1])
      else (RetPair (Fin 0) 0, JtJ, Jt_res))"

text \<open>The state of the loop after the first iteration of \<open>acc_later\<close> from \<open>x = 1\<close>.\<close>

definition later_state :: "vec gn_state" where
  "later_state =
     \<lparr> X = [Fin 0], X_last_good = [Fin 1], already_rolled_true = False,
       out = \<lparr> last_err2 = Fin 1, stop_reason = kMaxIters, num_residuals = 1,
               num_iters = 1, num_failures = 0, num_consec_failures = 0,
               last_JtJ = [[Fin 1]], errs2 = [Fin 1], deltas2 = [Fin 2, Fin 1],
               successes = [True, True] \<rparr> \<rparr>"

text \<open>Error 4 at \<open>x = 1\<close> with \<open>JtJ = 1\<close>; everywhere else the error is 1, lower, but
  \<open>JtJ = -1\<close> is not positive.\<close>

fun acc_lower_cost :: "vec ResidualsFunc" where
  "acc_lower_cost x JtJ Jt_res =
     (if x = [Fin 1] then (RetScalar (Fin 4), [[Fin 1]], [Fin 1])
      else (RetScalar (Fin 1), [[Fin (- 1)]], [Fin 1]))"

text \<open>The state of the loop after the first iteration of \<open>acc_lower_cost\<close> from \<open>x = 1\<close>,
  at the quality check of the second.\<close>

definition lower_cost_state :: "vec gn_state" where
  "lower_cost_state =
     \<lparr> X = [Fin 0], X_last_good = [Fin 1], already_rolled_true = False,
       out = \<lparr> last_err2 = Fin 4, stop_reason = kMaxIters, num_residuals = 1,
               num_iters = 1, num_failures = 1, num_consec_failures = 1,
               last_JtJ = [[Fin 1]], errs2 = [Fin 4], deltas2 = [Fin 2, Fin 1],
               successes = [True, True] \<rparr> \<rparr>"

text \<open>Finite error and \<open>JtJ\<close>, a gradient that is NaN; and a finite system whose error
  is NaN.\<close>

fun acc_nan_grad :: "vec ResidualsFunc" where
  "acc_nan_grad x JtJ Jt_res = (RetScalar (Fin 1), [[Fin 1]], [NaN])"

fun acc_nan_cost :: "vec ResidualsFunc" where
  "acc_nan_cost x JtJ Jt_res = (RetScalar NaN, [[Fin 1]], [Fin 1])"

text \<open>User functions that return the residual vector \<open>(3, 4)\<close>.\<close>

fun res_3_4 :: "vec ResFunc2" where
  "res_3_4 x grad H = (RawMatrix [Fin 3, Fin 4], grad, H)"

fun acc_3_4 :: "vec AccFunc1" where
  "acc_3_4 x grad = (RawMatrix [Fin 3, Fin 4], grad)"

text \<open>A backend for \<^verbatim>\<open>Solve\<close> in dimension one: the factorisation of \<open>(a)\<close> succeeds when
  \<open>0 < a\<close>; the epsilon is the one of \<^verbatim>\<open>double\<close>.\<close>

fun mb1_SolveLDLT :: "mat \<Rightarrow> vec \<Rightarrow> vec option" where
  "mb1_SolveLDLT [[a]] [b] = (if sc_less (Fin 0) a then Some [sc_div b a] else None)"
| "mb1_SolveLDLT M v = None"

definition mb1 :: math_backend where
  "mb1 = \<lparr> SolveLDLT = mb1_SolveLDLT, mat_inverse = la1_inverse,
           FloatEpsilon = Fin (1 / 2 ^ 52) \<rparr>"

definition dense1 :: HessianType where
  "dense1 = \<lparr> H_Dims = Some 1, is_sparse_matrix = False \<rparr>"

text \<open>A setting of the solver options, and a solver of dimension one whose Hessian is
  \<open>(0)\<close> and whose gradient is \<open>(3)\<close>, after one residual.\<close>

definition solver_options :: SolverOptions where
  "solver_options = \<lparr> use_ldlt = True, H_is_full = True, grad_clipping = Fin 0,
     check_min_H_diag = Fin 0, err_use_squared_norm = True, err_downscale_by_2 = False,
     err_normalize = False \<rparr>"

definition solver1 :: SolverGN where
  "solver1 = \<lparr> gn_options = solver_options, gn_H = [[Fin 0]], gn_grad = [Fin 3],
     gn_err = Fin 1, gn_nerr = 1 \<rparr>"

text \<open>Inputs for gradient clipping: first-order functions that write the gradient \<open>(0)\<close>
  and \<open>(5)\<close>, a gradient-descent solver with clipping value \<open>c\<close>, residual functions
  that write the gradient \<open>(5)\<close> and report no residual, or one, and a Gauss-Newton
  solver with clipping value 1.\<close>

fun acc_grad_0 :: "vec AccFunc1" where
  "acc_grad_0 x grad = (RawScalar (Fin 1), [Fin 0])"

fun acc_grad_5 :: "vec AccFunc1" where
  "acc_grad_5 x grad = (RawScalar (Fin 1), [Fin 5])"

definition gd_solver :: "scalar \<Rightarrow> SolverGD" where
  "gd_solver c = \<lparr> gd_options = \<lparr> gd_grad_clipping = c, lr = Fin 1 \<rparr>, gd_grad = [Fin 0],
     gd_err = Fin 0, gd_nerr = 0 \<rparr>"

fun res_none_grad_5 :: "vec ResFunc2" where
  "res_none_grad_5 x grad H = (RawPair (Fin 0) 0, [Fin 5], H)"

fun res_one_grad_5 :: "vec ResFunc2" where
  "res_one_grad_5 x grad H = (RawScalar (Fin 1), [Fin 5], [[Fin 1]])"

definition clipping_solver :: SolverGN where
  "clipping_solver = solver1\<lparr>gn_options := solver_options\<lparr>grad_clipping := Fin 1\<rparr>\<rparr>"

text \<open>
  A backend for systems of dimension two: the inverse by the adjugate formula, a
  factorisation that reads the upper triangle only, and a system whose accumulation function
  writes the upper triangle of \<open>((2, 1), (1, 3))\<close> and the gradient \<open>(5, 5)\<close>.
\<close>

fun la2_inverse :: "mat \<Rightarrow> mat" where
  "la2_inverse [[a, b], [c, d]] =
     (let det = sc_sub (sc_mul a d) (sc_mul b c)
      in [[sc_div d det, sc_div (sc_neg b) det], [sc_div (sc_neg c) det, sc_div a det]])"
| "la2_inverse M = la1_inverse M"

fun la2_isPositive :: "mat \<Rightarrow> bool" where
  "la2_isPositive [[a, b], [c, d]] =
     (sc_less (Fin 0) a \<and> sc_less (Fin 0) (sc_sub (sc_mul a d) (sc_mul b b)))"
| "la2_isPositive M = la1_isPositive M"

fun la2_solve :: "mat \<Rightarrow> vec \<Rightarrow> vec" where
  "la2_solve [[a, b], [c, d]] v = mat_vec (la2_inverse [[a, b], [b, d]]) v"
| "la2_solve M v = la1_solve M v"

definition la2 :: linalg where
  "la2 = \<lparr> ldlt_isPositive = la2_isPositive, ldlt_solve = la2_solve, inverse = la2_inverse,
           unassigned_matrix = (\<lambda>n. mat_zero n n) \<rparr>"

definition mb2 :: math_backend where
  "mb2 = \<lparr> SolveLDLT = (\<lambda>M v. if la2_isPositive M then Some (la2_solve M v) else None),
           mat_inverse = la2_inverse, FloatEpsilon = Fin (1 / 2 ^ 52) \<rparr>"

definition dense2 :: HessianType where
  "dense2 = \<lparr> H_Dims = Some 2, is_sparse_matrix = False \<rparr>"

definition upper_JtJ :: mat where
  "upper_JtJ = [[Fin 2, Fin 1], [Fin 0, Fin 3]]"

fun res_upper :: "vec ResFunc2" where
  "res_upper x grad H = (RawScalar (Fin 1), [Fin 5, Fin 5], upper_JtJ)"

definition upper_solver :: SolverGN where
  "upper_solver = \<lparr> gn_options = solver_options\<lparr>use_ldlt := False, H_is_full := False\<rparr>,
     gn_H = mat_zero 2 2, gn_grad = vec_zero 2, gn_err = Fin 0, gn_nerr = 0 \<rparr>"

text \<open>An error that stays at \<open>1 - 2^-30\<close>, a \<^verbatim>\<open>double\<close> that is not a \<^verbatim>\<open>float\<close>.\<close>

fun acc_below_one :: "vec ResidualsFunc" where
  "acc_below_one x JtJ Jt_res = (RetScalar (Fin (1 - 1 / 2 ^ 30)), [[Fin 1]], [Fin 1])"

section \<open>Properties\<close>

subsection \<open>Auxiliary facts\<close>

lemma length_fill_lower: "length (fill_lower M) = length M"
  by (simp add: fill_lower_def)

lemma is_square_fill_lower: "is_square n M \<Longrightarrow> is_square n (fill_lower M)"
  by (auto simp add: is_square_def fill_lower_def list_all_iff)

lemma coeff_fill_lower:
  assumes "is_square n M" "i < n" "j < n"
  shows "coeff (fill_lower M) i j = (if j \<le> i then coeff M j i else coeff M i j)"
  using assms
  by (auto simp add: is_square_def fill_lower_def coeff_def list_all_iff)

lemma fill_lower_symmetric:
  assumes "is_square n M" "i < n" "j < n"
  shows "coeff (fill_lower M) i j = coeff (fill_lower M) j i"
  using assms by (cases "i = j") (auto simp add: coeff_fill_lower)

lemma fill_lower_upper:
  assumes "is_square n M" "i < n" "j < n" "i \<le> j"
  shows "coeff (fill_lower M) i j = coeff M i j"
  using assms by (cases "i = j") (auto simp add: coeff_fill_lower)

lemma sqrt_25: "sqrt 25 = 5"
  by (rule real_sqrt_unique) simp_all

lemma foldl_sc_add_Fin:
  "foldl sc_add (Fin a) (map (\<lambda>c. sc_mul c c) (map Fin rs)) = Fin (a + (\<Sum>r\<leftarrow>rs. r * r))"
  by (induction rs arbitrary: a) (simp_all add: add.assoc)

lemma squaredNorm_Fin: "squaredNorm (map Fin rs) = Fin (\<Sum>r\<leftarrow>rs. r * r)"
  using foldl_sc_add_Fin [of 0 rs] by (simp only: squaredNorm_def sc_sum_def) simp

lemma finite_list_map_Fin:
  assumes "list_all isfinite cs"
  shows "\<exists>rs. cs = map Fin rs"
  using assms
proof (induction cs)
  case Nil
  then show ?case by simp
next
  case (Cons c cs)
  then obtain rs where "cs = map Fin rs" by auto
  moreover from Cons.prems obtain r where "c = Fin r" by (cases c) auto
  ultimately have "c # cs = map Fin (r # rs)" by simp
  then show ?case by (rule exI)
qed

lemma norm_l2_finite:
  assumes "list_all isfinite cs"
  shows "sc_mul (norm_l2 cs) (norm_l2 cs) = squaredNorm cs \<and> sc_le (Fin 0) (norm_l2 cs)"
proof -
  from finite_list_map_Fin [OF assms] obtain rs where cs: "cs = map Fin rs" by blast
  have nn: "0 \<le> (\<Sum>r\<leftarrow>rs. r * r)"
    by (rule sum_list_nonneg) auto
  then show ?thesis
    by (auto simp add: cs norm_l2_def squaredNorm_Fin sc_le_def)
qed

lemma sc_le_not_less: "sc_le a b \<Longrightarrow> \<not> sc_less b a"
  by (cases a; cases b) (auto simp add: sc_le_def)

lemma clamp_coeff_range:
  assumes "sc_less (Fin 0) c"
  shows "isnan (sc_min (sc_max a (sc_neg c)) c) \<or>
     (sc_le (sc_neg c) (sc_min (sc_max a (sc_neg c)) c) \<and>
      sc_le (sc_min (sc_max a (sc_neg c)) c) c)"
  using assms
  by (cases c; cases a) (auto simp add: sc_min_def sc_max_def sc_le_def)

lemma Clamp_range:
  assumes "sc_less (Fin 0) c"
  shows "list_all (\<lambda>a. isnan a \<or> (sc_le (sc_neg c) a \<and> sc_le a c)) (snd (Clamp g c))"
proof -
  from assms have "\<not> sc_eq c (Fin 0)" by (cases c) auto
  then show ?thesis
    using clamp_coeff_range [OF assms]
    by (simp add: Clamp_def list_all_iff)
qed

lemma SolverGN_Accumulate_fields:
  "gn_options (snd (SolverGN_Accumulate res_func x s)) = gn_options s"
  "fst (SolverGN_Accumulate res_func x s) = (0 < gn_nerr (snd (SolverGN_Accumulate res_func x s)))"
  by (simp_all add: SolverGN_Accumulate_def Let_def split_def)

lemma SolverGN_clear_options: "gn_options (SolverGN_clear s) = gn_options s"
  by (simp add: SolverGN_clear_def)

lemma SolverGN_ResizeIfNeeded_options:
  "gn_options (snd (SolverGN_ResizeIfNeeded ht pt x s)) = gn_options s"
  by (simp add: SolverGN_ResizeIfNeeded_def SolverGN_resize_def)

lemma SolverGN_Build_grad:
  assumes b: "SolverGN_Build ht pt x res_func rc s = (ok, s')"
      and n: "0 < gn_nerr s'"
  shows "gn_grad s' = snd (Clamp (gn_grad (snd (SolverGN_Accumulate res_func x
      (if rc then SolverGN_clear (snd (SolverGN_ResizeIfNeeded ht pt x s)) else s))))
      (grad_clipping (gn_options s)))"
proof -
  let ?s1 = "if rc then SolverGN_clear (snd (SolverGN_ResizeIfNeeded ht pt x s)) else s"
  let ?a = "SolverGN_Accumulate res_func x ?s1"
  have o: "gn_options (snd ?a) = gn_options s"
    by (simp add: SolverGN_Accumulate_fields SolverGN_clear_options
        SolverGN_ResizeIfNeeded_options)
  show ?thesis
  proof (cases "fst ?a")
    case False
    with b have "s' = snd ?a" by (simp add: SolverGN_Build_def Let_def split_def)
    with False n show ?thesis by (simp add: SolverGN_Accumulate_fields(2))
  next
    case True
    let ?s3 = "(snd ?a)\<lparr>gn_grad := snd (Clamp (gn_grad (snd ?a)) (grad_clipping (gn_options (snd ?a))))\<rparr>"
    from True b have "s' = ?s3 \<or> s' = ?s3\<lparr>gn_H := fill_lower (gn_H ?s3)\<rparr>"
      by (auto simp add: SolverGN_Build_def Let_def split_def split: if_splits)
    then show ?thesis using o by auto
  qed
qed

lemma SolverGD_Build_grad:
  assumes b: "SolverGD_Build D pt x acc rc s = Inr (ok, s')"
  shows "\<exists>g. gd_grad s' = snd (Clamp g (gd_grad_clipping (gd_options s)))"
proof -
  let ?s1 = "if rc then SolverGD_clear (snd (SolverGD_ResizeIfNeeded D pt x s)) else s"
  have o: "gd_options ?s1 = gd_options s"
    by (simp add: SolverGD_clear_def SolverGD_ResizeIfNeeded_def)
  from b obtain s2 where a: "SolverGD_Accumulate acc x ?s1 = Inr (ok, s2)"
    and s': "s' = s2\<lparr>gd_grad := snd (Clamp (gd_grad s2) (gd_grad_clipping (gd_options s2)))\<rparr>"
    by (auto simp add: SolverGD_Build_def Let_def split: sum.splits)
  from a have "gd_options s2 = gd_options ?s1"
    by (auto simp add: SolverGD_Accumulate_def split: sum.splits prod.splits)
  with o s' show ?thesis by auto
qed

lemma to_float_default_min_grad_norm2:
  "to_float (Fin (1 / 10 ^ 12)) = Fin (2305843 / 2 ^ 61)"
  by code_simp

lemma sc_less_sub: "sc_less (sc_sub a b) (Fin 0) = sc_less a b"
  by (cases a; cases b) (simp_all add: sc_sub_def)

lemma GN_good_step_simps:
  "fst (GN_good_step pt options err dX JtJ s) = False"
  "X (snd (GN_good_step pt options err dX JtJ s)) = pluseq pt (X s) dX"
  "X_last_good (snd (GN_good_step pt options err dX JtJ s)) =
     (if num_iters (out s) \<noteq> 0 then X s else X_last_good s)"
  "already_rolled_true (snd (GN_good_step pt options err dX JtJ s)) = False"
  "successes (out (snd (GN_good_step pt options err dX JtJ s))) = successes (out s) @ [True]"
  "num_consec_failures (out (snd (GN_good_step pt options err dX JtJ s))) = 0"
  "num_failures (out (snd (GN_good_step pt options err dX JtJ s))) = num_failures (out s)"
  "last_err2 (out (snd (GN_good_step pt options err dX JtJ s))) = to_float err"
  "stop_reason (out (snd (GN_good_step pt options err dX JtJ s))) = stop_reason (out s)"
  by (simp_all add: GN_good_step_def Let_def unat_gt_0)

lemma GN_bad_step_simps:
  "X (snd (GN_bad_step options s)) = (if already_rolled_true s then X s else X_last_good s)"
  "X_last_good (snd (GN_bad_step options s)) = X_last_good s"
  "already_rolled_true (snd (GN_bad_step options s)) = True"
  "successes (out (snd (GN_bad_step options s))) = successes (out s) @ [False]"
  "num_consec_failures (out (snd (GN_bad_step options s))) = num_consec_failures (out s) + 1"
  "num_failures (out (snd (GN_bad_step options s))) = num_failures (out s) + 1"
  "last_err2 (out (snd (GN_bad_step options s))) = last_err2 (out s)"
  by (simp_all add: GN_bad_step_def Let_def)

lemma GN_final_checks_simps:
  "X (snd (GN_final_checks options n f d g s)) = X s"
  "X_last_good (snd (GN_final_checks options n f d g s)) = X_last_good s"
  "already_rolled_true (snd (GN_final_checks options n f d g s)) = already_rolled_true s"
  "successes (out (snd (GN_final_checks options n f d g s))) = successes (out s)"
  "num_consec_failures (out (snd (GN_final_checks options n f d g s))) =
     num_consec_failures (out s)"
  "num_failures (out (snd (GN_final_checks options n f d g s))) = num_failures (out s)"
  "last_err2 (out (snd (GN_final_checks options n f d g s))) = last_err2 (out s)"
  by (simp_all add: GN_final_checks_def)


text \<open>The rolled-back flag: whenever it is set, \<open>x\<close> is \<^verbatim>\<open>X_last_good\<close>. This holds
  before the loop and is kept by every iteration.\<close>

lemma GN_check_step_fields:
  assumes "GN_check_step pt options err dX JtJ Jt_res solver_failed s = (brk, s')"
  shows "(X s' = X s \<and> X_last_good s' = X_last_good s \<and>
          already_rolled_true s' = already_rolled_true s) \<or>
         \<not> already_rolled_true s' \<or> X s' = X_last_good s'"
proof (cases "isnan (if solver_failed then Fin 0 else squaredNorm dX)")
  case True
  with assms show ?thesis by (simp add: GN_check_step_def Let_def)
next
  case False
  let ?d = "if solver_failed then Fin 0 else squaredNorm dX"
  let ?s1 = "s\<lparr>out := (out s)\<lparr>errs2 := errs2 (out s) @ [to_float err],
      deltas2 := deltas2 (out s) @ [to_float ?d]\<rparr>\<rparr>"
  let ?r = "if sc_less (sc_sub err (last_err2 (out s))) (Fin 0) \<and> \<not> solver_failed
            then GN_good_step pt options err dX JtJ ?s1 else GN_bad_step options ?s1"
  from False assms have "s' = snd ?r \<or>
      s' = snd (GN_final_checks options False solver_failed ?d
            (if sc_eq (min_grad_norm2 options) (Fin 0) then Fin 0 else squaredNorm Jt_res)
            (snd ?r))"
    by (auto simp add: GN_check_step_def Let_def split_def split: if_splits)
  then show ?thesis
    by (cases "sc_less (sc_sub err (last_err2 (out s))) (Fin 0) \<and> \<not> solver_failed")
      (auto simp add: GN_good_step_simps GN_bad_step_simps GN_final_checks_simps
        split: if_splits)
qed

lemma GN_iter_rolled_back:
  assumes inv: "already_rolled_true s \<longrightarrow> X s = X_last_good s"
      and it: "GN_iter la pt acc options sz s = (brk, s')"
  shows "already_rolled_true s' \<longrightarrow> X s' = X_last_good s'"
proof -
  obtain ret JtJ Jt_res where a: "acc (X s) (mat_zero sz sz) (vec_zero sz) = (ret, JtJ, Jt_res)"
    by (cases "acc (X s) (mat_zero sz sz) (vec_zero sz)") auto
  obtain err nerr where e: "(case ret of RetScalar e \<Rightarrow> (e, 1) | RetPair e n \<Rightarrow> (e, n)) = (err, nerr)"
    by (cases "(case ret of RetScalar e \<Rightarrow> (e, 1::int) | RetPair e n \<Rightarrow> (e, n))") auto
  have "(X s' = X s \<and> X_last_good s' = X_last_good s \<and>
          already_rolled_true s' = already_rolled_true s) \<or>
         \<not> already_rolled_true s' \<or> X s' = X_last_good s'"
  proof (cases "nerr = 0 \<and> num_iters (out s) = 0")
    case True
    with it a e show ?thesis by (auto simp add: GN_iter_def Let_def)
  next
    case False
    with it a e obtain dX JtJ' sf s2 where
      c: "GN_check_step pt options err dX JtJ' Jt_res sf s2 = (brk, s')"
      and f: "X s2 = X s" "X_last_good s2 = X_last_good s"
          "already_rolled_true s2 = already_rolled_true s"
      by (auto simp add: GN_iter_def Let_def split_def split: if_splits)
    from GN_check_step_fields [OF c] f show ?thesis by simp
  qed
  with inv show ?thesis by auto
qed

lemma GN_reachable_rolled_back:
  assumes "GN_reachable la pt acc options x s"
  shows "already_rolled_true s \<longrightarrow> X s = X_last_good s"
  using assms
proof (induction rule: GN_reachable.induct)
  case init
  show ?case by (simp add: GN_init_def)
next
  case (step s s')
  from GN_iter_rolled_back [OF step.IH step.hyps(3)] show ?case by simp
qed

lemma GN_solve_stop_reason:
  "stop_reason (snd (snd (snd (GN_solve la options dX0 skip JtJ Jt_res ou)))) = stop_reason ou"
  by (simp add: GN_solve_def Let_def)

lemma GN_bad_step_stop_reason:
  "stop_reason (out (snd (GN_bad_step options s))) \<in>
     {stop_reason (out s), kMaxConsecFails, kMaxFails}"
  by (simp add: GN_bad_step_def Let_def)

lemma GN_final_checks_stop_reason:
  "stop_reason (out (snd (GN_final_checks options False f d g s))) \<in>
     {stop_reason (out s), kSolverFailed, kMinDeltaNorm, kMinGradNorm}"
  by (simp add: GN_final_checks_def)

lemma GN_check_step_stop_reason:
  assumes "stop_reason (out s) \<noteq> kSystemHasNaNs"
  shows "stop_reason (out (snd (GN_check_step pt options err dX JtJ Jt_res sf s))) \<noteq>
     kSystemHasNaNs"
proof (cases "isnan (if sf then Fin 0 else squaredNorm dX)")
  case True
  with assms show ?thesis by (simp add: GN_check_step_def Let_def)
next
  case False
  let ?d = "if sf then Fin 0 else squaredNorm dX"
  let ?s1 = "s\<lparr>out := (out s)\<lparr>errs2 := errs2 (out s) @ [to_float err],
      deltas2 := deltas2 (out s) @ [to_float ?d]\<rparr>\<rparr>"
  let ?r = "if sc_less (sc_sub err (last_err2 (out s))) (Fin 0) \<and> \<not> sf
            then GN_good_step pt options err dX JtJ ?s1 else GN_bad_step options ?s1"
  let ?g = "if sc_eq (min_grad_norm2 options) (Fin 0) then Fin 0 else squaredNorm Jt_res"
  have r: "stop_reason (out (snd ?r)) \<noteq> kSystemHasNaNs"
    using assms GN_bad_step_stop_reason [of options ?s1]
    by (auto simp add: GN_good_step_simps)
  have "GN_check_step pt options err dX JtJ Jt_res sf s =
      (if fst ?r then (True, snd ?r) else GN_final_checks options False sf ?d ?g (snd ?r))"
    using False by (simp add: GN_check_step_def Let_def split_def)
  then show ?thesis
    using r GN_final_checks_stop_reason [of options sf ?d ?g "snd ?r"]
    by auto
qed

lemma GN_iter_shape:
  "(fst (GN_iter la pt acc options sz s) \<and>
      stop_reason (out (snd (GN_iter la pt acc options sz s))) = kNoResiduals) \<or>
   (\<exists>err dX JtJ' Jt_res sf s2.
      GN_iter la pt acc options sz s = GN_check_step pt options err dX JtJ' Jt_res sf s2 \<and>
      stop_reason (out s2) = stop_reason (out s))"
proof -
  let ?a = "acc (X s) (mat_zero sz sz) (vec_zero sz)"
  let ?en = "case fst ?a of RetScalar e \<Rightarrow> (e, 1::int) | RetPair e n \<Rightarrow> (e, n)"
  show ?thesis
  proof (cases "snd ?en = 0 \<and> num_iters (out s) = 0")
    case True
    then show ?thesis by (simp add: GN_iter_def Let_def split_def)
  next
    case False
    let ?s1 = "s\<lparr>out := (out s)\<lparr>num_residuals := word_of_int (snd ?en)\<rparr>\<rparr>"
    let ?s2 = "if snd ?en = 0
               then ?s1\<lparr>out := (out ?s1)\<lparr>errs2 := errs2 (out ?s1) @ [Fin 0],
                                          deltas2 := deltas2 (out ?s1) @ [Fin 0],
                                          successes := successes (out ?s1) @ [False]\<rparr>\<rparr>
               else ?s1"
    let ?sol = "GN_solve la options (dX_zero pt) (snd ?en = 0) (fst (snd ?a)) (snd (snd ?a))
                  (out ?s2)"
    have "GN_iter la pt acc options sz s =
        GN_check_step pt options (fst ?en) (fst ?sol) (fst (snd ?sol)) (snd (snd ?a))
          (fst (snd (snd ?sol))) (?s2\<lparr>out := snd (snd (snd ?sol))\<rparr>)"
      using False by (simp add: GN_iter_def Let_def split_def)
    moreover have "stop_reason (out (?s2\<lparr>out := snd (snd (snd ?sol))\<rparr>)) = stop_reason (out s)"
      by (simp add: GN_solve_stop_reason)
    ultimately show ?thesis by blast
  qed
qed

lemma GN_iter_stop_reason:
  assumes "stop_reason (out s) \<noteq> kSystemHasNaNs"
  shows "stop_reason (out (snd (GN_iter la pt acc options sz s))) \<noteq> kSystemHasNaNs"
proof -
  from GN_iter_shape [of la pt acc options sz s]
  consider "stop_reason (out (snd (GN_iter la pt acc options sz s))) = kNoResiduals"
    | err dX JtJ' Jt_res sf s2 where
      "GN_iter la pt acc options sz s = GN_check_step pt options err dX JtJ' Jt_res sf s2"
      "stop_reason (out s2) = stop_reason (out s)"
    by blast
  then show ?thesis
  proof cases
    case 1
    then show ?thesis by simp
  next
    case 2
    with assms GN_check_step_stop_reason [of s2 pt options err dX JtJ' Jt_res sf]
    show ?thesis by simp
  qed
qed

lemma GN_loop_stop_reason:
  assumes "GN_loop la pt acc options sz s = Some s'"
  shows "stop_reason (out s) \<noteq> kSystemHasNaNs \<longrightarrow> stop_reason (out s') \<noteq> kSystemHasNaNs"
proof (rule GN_loop.raw_induct [where P = "\<lambda>la pt acc options sz s s'.
    stop_reason (out s) \<noteq> kSystemHasNaNs \<longrightarrow> stop_reason (out s') \<noteq> kSystemHasNaNs",
    OF _ assms])
  fix f :: "linalg \<Rightarrow> 'a params_trait \<Rightarrow> 'a ResidualsFunc \<Rightarrow> Options \<Rightarrow> nat \<Rightarrow> 'a gn_state \<Rightarrow>
     'a gn_state option"
  fix la pt acc options sz s r
  assume IH: "\<And>la pt acc options sz s r. f la pt acc options sz s = Some r \<Longrightarrow>
      stop_reason (out s) \<noteq> kSystemHasNaNs \<longrightarrow> stop_reason (out r) \<noteq> kSystemHasNaNs"
  assume body: "(if unat (num_iters (out s)) < unat (opt_num_iters options) + 1
      then case GN_iter la pt acc options sz s of
           (brk, s') \<Rightarrow>
             if brk then Some s'
             else f la pt acc options sz
                   (s'\<lparr>out := (out s')\<lparr>num_iters := num_iters (out s') + 1\<rparr>\<rparr>)
      else Some s) = Some r"
  show "stop_reason (out s) \<noteq> kSystemHasNaNs \<longrightarrow> stop_reason (out r) \<noteq> kSystemHasNaNs"
  proof (cases "unat (num_iters (out s)) < unat (opt_num_iters options) + 1")
    case False
    with body show ?thesis by simp
  next
    case True
    obtain brk s1 where it: "GN_iter la pt acc options sz s = (brk, s1)"
      by (cases "GN_iter la pt acc options sz s")
    have s1: "stop_reason (out s) \<noteq> kSystemHasNaNs \<longrightarrow> stop_reason (out s1) \<noteq> kSystemHasNaNs"
      using GN_iter_stop_reason [of s la pt acc options sz] it by simp
    show ?thesis
    proof (cases brk)
      case True
      with body it \<open>unat (num_iters (out s)) < unat (opt_num_iters options) + 1\<close>
      have "r = s1" by simp
      with s1 show ?thesis by simp
    next
      case False
      with body it \<open>unat (num_iters (out s)) < unat (opt_num_iters options) + 1\<close>
      have "f la pt acc options sz
          (s1\<lparr>out := (out s1)\<lparr>num_iters := num_iters (out s1) + 1\<rparr>\<rparr>) = Some r"
        by simp
      from IH [OF this] s1 show ?thesis by simp
    qed
  qed
qed

text \<open>The driver never returns the stop reason \<^verbatim>\<open>kSystemHasNaNs\<close>: the only assignment of it
  (line 257) sits behind the \<^verbatim>\<open>break\<close> of line 192.\<close>

lemma GN_never_reports_nans:
  assumes "GN la pt x acc options = Some (ou, x')"
  shows "stop_reason ou \<noteq> kSystemHasNaNs"
proof -
  from assms obtain s' where
    l: "GN_loop la pt acc options (gn_size pt x) (GN_init la pt options x) = Some s'"
    and o: "ou = out s'"
    by (auto simp add: GN_def)
  from GN_loop_stop_reason [OF l] o show ?thesis by (simp add: GN_init_def)
qed

subsection \<open>Stop reasons\<close>

text \<open>
  C5. For every output record, \<^verbatim>\<open>Converged()\<close> is true exactly when the stop reason is
  \<^verbatim>\<open>kMinDeltaNorm\<close> or \<^verbatim>\<open>kMinGradNorm\<close>. The enumeration of the driver has the eight
  reasons listed in the second conjunct and no minimum-error reason, so these two are all the
  converged reasons a returned record can carry.
\<close>

theorem Converged_iff:
  "(Converged ou \<longleftrightarrow> stop_reason ou \<in> {kMinDeltaNorm, kMinGradNorm}) \<and>
   (UNIV :: StopReason set) = {kMaxIters, kMinDeltaNorm, kMinGradNorm, kMaxFails,
      kMaxConsecFails, kSystemHasNaNs, kSolverFailed, kNoResiduals}"
proof
  show "Converged ou \<longleftrightarrow> stop_reason ou \<in> {kMinDeltaNorm, kMinGradNorm}"
    by (simp add: Converged_def)
next
  have "r \<in> {kMaxIters, kMinDeltaNorm, kMinGradNorm, kMaxFails,
      kMaxConsecFails, kSystemHasNaNs, kSolverFailed, kNoResiduals}" for r :: StopReason
    by (cases r) simp_all
  then show "(UNIV :: StopReason set) = {kMaxIters, kMinDeltaNorm, kMinGradNorm, kMaxFails,
      kMaxConsecFails, kSystemHasNaNs, kSolverFailed, kNoResiduals}"
    by blast
qed

text \<open>
  C6. \<^verbatim>\<open>Succeeded()\<close> is false exactly for the three fatal reasons
  (\<^verbatim>\<open>kSystemHasNaNs\<close>, \<^verbatim>\<open>kSolverFailed\<close>, \<^verbatim>\<open>kNoResiduals\<close>) and true exactly for the five
  others.
\<close>

theorem Succeeded_iff:
  "(\<not> Succeeded ou \<longleftrightarrow> stop_reason ou \<in> {kSystemHasNaNs, kSolverFailed, kNoResiduals}) \<and>
   (Succeeded ou \<longleftrightarrow>
      stop_reason ou \<in> {kMaxIters, kMinDeltaNorm, kMinGradNorm, kMaxFails, kMaxConsecFails})"
  by (cases "stop_reason ou") (simp_all add: Succeeded_def)

subsection \<open>No residuals\<close>

text \<open>
  C3, as the claim states it, fails: an accumulation function that reports no residual on the
  first call stops the run with \<^verbatim>\<open>kNoResiduals\<close> and \<^verbatim>\<open>num_iters = 0\<close>, but the
  history vectors of the returned record are not empty.
\<close>

theorem GN_no_residuals_history_counterexample:
  "GN la1 (vec_trait 1) [Fin 1] acc_none default_Options =
     Some (\<lparr>last_err2 = FLT_MAX, stop_reason = kNoResiduals, num_residuals = 0, num_iters = 0,
             num_failures = 0, num_consec_failures = 0, last_JtJ = [[Fin 0]],
             errs2 = [Fin 0], deltas2 = [Fin 2, Fin 0], successes = [True, False]\<rparr>,
           [Fin 1]) \<and>
   errs2 (fst (the (GN la1 (vec_trait 1) [Fin 1] acc_none default_Options))) \<noteq> [] \<and>
   deltas2 (fst (the (GN la1 (vec_trait 1) [Fin 1] acc_none default_Options))) \<noteq> [] \<and>
   successes (fst (the (GN la1 (vec_trait 1) [Fin 1] acc_none default_Options))) \<noteq> []"
proof -
  have "GN la1 (vec_trait 1) [Fin 1] acc_none default_Options =
     Some (\<lparr>last_err2 = FLT_MAX, stop_reason = kNoResiduals, num_residuals = 0, num_iters = 0,
             num_failures = 0, num_consec_failures = 0, last_JtJ = [[Fin 0]],
             errs2 = [Fin 0], deltas2 = [Fin 2, Fin 0], successes = [True, False]\<rparr>,
           [Fin 1])"
    by code_simp
  then show ?thesis by simp
qed

text \<open>
  C3, amended. When the accumulation function reports a zero residual count on the first
  call, the run returns in that first iteration with stop reason \<^verbatim>\<open>kNoResiduals\<close>,
  \<^verbatim>\<open>num_iters = 0\<close>, \<^verbatim>\<open>Succeeded()\<close> false and \<open>x\<close> untouched; the skipped iteration is
  recorded in the history: \<^verbatim>\<open>errs2\<close> is the single entry 0, and 0 and \<open>false\<close> are the
  last entries of \<^verbatim>\<open>deltas2\<close> and \<^verbatim>\<open>successes\<close>.
\<close>

theorem GN_no_residuals_first:
  assumes "fst (acc x (mat_zero (gn_size pt x) (gn_size pt x)) (vec_zero (gn_size pt x))) =
     RetPair e 0"
  shows "\<exists>ou. GN la pt x acc options = Some (ou, x) \<and> stop_reason ou = kNoResiduals \<and>
     num_iters ou = 0 \<and> \<not> Succeeded ou \<and> errs2 ou = [Fin 0] \<and>
     last (deltas2 ou) = Fin 0 \<and> last (successes ou) = False"
  unfolding GN_def
  apply (subst GN_loop.simps)
  using assms
  apply (simp add: GN_init_def GN_iter_def split_def Succeeded_def)
  done

theorem GN_no_residuals_first_witness:
  "fst (acc_none [Fin 1] (mat_zero (gn_size (vec_trait 1) [Fin 1]) (gn_size (vec_trait 1) [Fin 1]))
     (vec_zero (gn_size (vec_trait 1) [Fin 1]))) = RetPair (Fin 0) 0 \<and>
   (\<exists>ou. GN la1 (vec_trait 1) [Fin 1] acc_none default_Options = Some (ou, [Fin 1]) \<and>
     stop_reason ou = kNoResiduals \<and> num_iters ou = 0 \<and> \<not> Succeeded ou \<and>
     errs2 ou = [Fin 0] \<and> last (deltas2 ou) = Fin 0 \<and> last (successes ou) = False)"
proof -
  have h: "fst (acc_none [Fin 1]
      (mat_zero (gn_size (vec_trait 1) [Fin 1]) (gn_size (vec_trait 1) [Fin 1]))
      (vec_zero (gn_size (vec_trait 1) [Fin 1]))) = RetPair (Fin 0) 0"
    by simp
  from GN_no_residuals_first [where acc = acc_none and x = "[Fin 1]" and pt = "vec_trait 1"
      and e = "Fin 0" and la = la1 and options = default_Options] h
  show ?thesis by simp
qed

text \<open>
  C7, as the claim states it, fails: with failure budgets of 5, one residual in the first
  iteration and none in the second, the run does not continue: it stops in the second
  iteration with \<^verbatim>\<open>kSolverFailed\<close> after a single failure.
\<close>

theorem GN_no_residuals_later_counterexample:
  "GN la1 (vec_trait 1) [Fin 1] acc_later
      (default_Options\<lparr>max_total_failures := 5, max_consec_failures := 5\<rparr>) =
     Some (\<lparr>last_err2 = Fin 1, stop_reason = kSolverFailed, num_residuals = 0, num_iters = 1,
             num_failures = 1, num_consec_failures = 1, last_JtJ = [[Fin 1]],
             errs2 = [Fin 1, Fin 0, Fin 0], deltas2 = [Fin 2, Fin 1, Fin 0, Fin 0],
             successes = [True, True, False, False]\<rparr>, [Fin 1])"
  by code_simp

text \<open>
  C7, amended. When the accumulation function reports a zero residual count in an iteration
  whose counter is not 0, the iteration is counted as a failed step: both failure counters are
  incremented, \<open>false\<close> is recorded and \<open>x\<close> is rolled back unless it already was. The
  loop does not continue: the run returns in that same iteration, with \<^verbatim>\<open>kMaxConsecFails\<close>
  or \<^verbatim>\<open>kMaxFails\<close> when that budget is reached and with \<^verbatim>\<open>kSolverFailed\<close> otherwise.
\<close>

theorem GN_no_residuals_later:
  assumes a: "fst (acc (X s) (mat_zero sz sz) (vec_zero sz)) = RetPair e 0"
      and n: "num_iters (out s) \<noteq> 0"
      and l: "unat (num_iters (out s)) < unat (opt_num_iters options) + 1"
  shows "\<exists>s'. GN_loop la pt acc options sz s = Some s' \<and>
      GN_iter la pt acc options sz s = (True, s') \<and>
      num_failures (out s') = num_failures (out s) + 1 \<and>
      num_consec_failures (out s') = num_consec_failures (out s) + 1 \<and>
      stop_reason (out s') =
        (if 0 < unat (max_consec_failures options) \<and>
            unat (max_consec_failures options) \<le> unat (num_consec_failures (out s) + 1)
         then kMaxConsecFails
         else if 0 < unat (max_total_failures options) \<and>
            unat (max_total_failures options) \<le> unat (num_failures (out s) + 1)
         then kMaxFails else kSolverFailed) \<and>
      \<not> last (successes (out s')) \<and> num_iters (out s') = num_iters (out s) \<and>
      X s' = (if already_rolled_true s then X s else X_last_good s)"
proof -
  have it: "GN_iter la pt acc options sz s = GN_check_step pt options e (dX_zero pt)
     (fst (snd (acc (X s) (mat_zero sz sz) (vec_zero sz))))
     (snd (snd (acc (X s) (mat_zero sz sz) (vec_zero sz)))) True
     (s\<lparr>out := (out s)\<lparr>num_residuals := 0, errs2 := errs2 (out s) @ [Fin 0],
                        deltas2 := deltas2 (out s) @ [Fin 0],
                        successes := successes (out s) @ [False]\<rparr>\<rparr>)"
    using a n by (simp add: GN_iter_def split_def GN_solve_def Let_def)
  show ?thesis
    apply (subst GN_loop.simps)
    using l
    apply (simp add: it GN_check_step_def GN_bad_step_def GN_final_checks_def Let_def)
    done
qed

theorem GN_no_residuals_later_witness:
  "fst (acc_later (X later_state) (mat_zero 1 1) (vec_zero 1)) = RetPair (Fin 0) 0 \<and>
   num_iters (out later_state) \<noteq> 0 \<and>
   unat (num_iters (out later_state)) <
     unat (opt_num_iters (default_Options\<lparr>max_total_failures := 5,
                                         max_consec_failures := 5\<rparr>)) + 1 \<and>
   (\<exists>s'. GN_loop la1 (vec_trait 1) acc_later
            (default_Options\<lparr>max_total_failures := 5, max_consec_failures := 5\<rparr>) 1
            later_state = Some s' \<and>
      num_failures (out s') = 1 \<and> num_consec_failures (out s') = 1 \<and>
      stop_reason (out s') = kSolverFailed \<and> \<not> last (successes (out s')) \<and>
      num_iters (out s') = 1 \<and> X s' = [Fin 1])"
proof -
  have a: "fst (acc_later (X later_state) (mat_zero 1 1) (vec_zero 1)) = RetPair (Fin 0) 0"
    by (simp add: later_state_def)
  have n: "num_iters (out later_state) \<noteq> 0"
    by (simp add: later_state_def)
  have l: "unat (num_iters (out later_state)) <
     unat (opt_num_iters (default_Options\<lparr>max_total_failures := 5,
                                         max_consec_failures := 5\<rparr>)) + 1"
    by (simp add: later_state_def default_Options_def)
  from GN_no_residuals_later [where acc = acc_later and s = later_state and sz = 1
      and e = "Fin 0" and la = la1 and pt = "vec_trait 1"
      and options = "default_Options\<lparr>max_total_failures := 5, max_consec_failures := 5\<rparr>"]
    a n l
  show ?thesis
    by (auto simp add: later_state_def default_Options_def)
qed

subsection \<open>Step acceptance and rollback\<close>

text \<open>
  C4, as the claim states it, fails: the step from \<open>x = 1\<close> to \<open>x = 0\<close> lowers the error
  from 4 to 1, strictly, and is still rejected and rolled back, because the factorisation at
  the new point is not positive.
\<close>

theorem GN_accept_counterexample:
  "GN la1 (vec_trait 1) [Fin 1] acc_lower_cost default_Options =
     Some (\<lparr>last_err2 = Fin 4, stop_reason = kMaxConsecFails, num_residuals = 1, num_iters = 1,
             num_failures = 2, num_consec_failures = 2, last_JtJ = [[Fin 1]],
             errs2 = [Fin 4, Fin 1], deltas2 = [Fin 2, Fin 1, Fin 0],
             successes = [True, True, False]\<rparr>, [Fin 1])"
  by code_simp

text \<open>
  C4, amended. In the quality check of an iteration (the squared norm of the step is not
  NaN), the step is accepted, that is \<open>true\<close> is recorded, exactly when the newly evaluated
  error is strictly lower than \<^verbatim>\<open>out.last_err2\<close> and the linear solve did not fail;
  \<^verbatim>\<open>out.last_err2\<close> is the last accepted error as the \<^verbatim>\<open>float\<close> it was stored in
  (\<^verbatim>\<open>FLT_MAX\<close> before the first acceptance). On acceptance \<open>x\<close> is committed to
  \<^verbatim>\<open>X_last_good\<close> (when the iteration counter is not 0), moved by the step, the
  consecutive-failure counter is reset and the error, narrowed to \<^verbatim>\<open>float\<close>, becomes
  \<^verbatim>\<open>out.last_err2\<close>. On rejection both failure counters are incremented and \<open>x\<close> is
  \<^verbatim>\<open>X_last_good\<close>, the value it had when the last accepted error was evaluated. The
  hypothesis on the rolled-back flag holds in every state the loop reaches
  (\<open>GN_reachable_rolled_back\<close>).
\<close>

theorem GN_step_accept_or_rollback:
  assumes inv: "already_rolled_true s \<longrightarrow> X s = X_last_good s"
      and nonan: "\<not> isnan (if solver_failed then Fin 0 else squaredNorm dX)"
      and res: "GN_check_step pt options err dX JtJ Jt_res solver_failed s = (brk, s')"
  shows "(last (successes (out s')) \<longleftrightarrow> sc_less err (last_err2 (out s)) \<and> \<not> solver_failed) \<and>
     (last (successes (out s')) \<longrightarrow>
        X_last_good s' = (if num_iters (out s) \<noteq> 0 then X s else X_last_good s) \<and>
        X s' = pluseq pt (X s) dX \<and> \<not> already_rolled_true s' \<and>
        num_consec_failures (out s') = 0 \<and> num_failures (out s') = num_failures (out s) \<and>
        last_err2 (out s') = to_float err) \<and>
     (\<not> last (successes (out s')) \<longrightarrow>
        X s' = X_last_good s \<and> X_last_good s' = X_last_good s \<and> already_rolled_true s' \<and>
        num_consec_failures (out s') = num_consec_failures (out s) + 1 \<and>
        num_failures (out s') = num_failures (out s) + 1 \<and>
        last_err2 (out s') = last_err2 (out s))"
proof (cases "sc_less err (last_err2 (out s)) \<and> \<not> solver_failed")
  case True
  let ?s1 = "s\<lparr>out := (out s)\<lparr>errs2 := errs2 (out s) @ [to_float err],
      deltas2 := deltas2 (out s) @ [to_float (squaredNorm dX)]\<rparr>\<rparr>"
  let ?g = "GN_good_step pt options err dX JtJ ?s1"
  from True nonan res have "s' = snd ?g \<or>
      s' = snd (GN_final_checks options False False (squaredNorm dX)
            (if sc_eq (min_grad_norm2 options) (Fin 0) then Fin 0 else squaredNorm Jt_res)
            (snd ?g))"
    by (auto simp add: GN_check_step_def Let_def sc_less_sub split_def GN_good_step_simps
        split: if_splits)
  then show ?thesis using True
    by (auto simp add: GN_good_step_simps GN_final_checks_simps)
next
  case False
  let ?d = "if solver_failed then Fin 0 else squaredNorm dX"
  let ?s1 = "s\<lparr>out := (out s)\<lparr>errs2 := errs2 (out s) @ [to_float err],
      deltas2 := deltas2 (out s) @ [to_float ?d]\<rparr>\<rparr>"
  let ?b = "GN_bad_step options ?s1"
  from False nonan res have "s' = snd ?b \<or>
      s' = snd (GN_final_checks options False solver_failed ?d
            (if sc_eq (min_grad_norm2 options) (Fin 0) then Fin 0 else squaredNorm Jt_res)
            (snd ?b))"
    by (auto simp add: GN_check_step_def Let_def sc_less_sub split_def split: if_splits)
  then show ?thesis using False inv
    by (auto simp add: GN_bad_step_simps GN_final_checks_simps)
qed

theorem GN_step_accept_or_rollback_witness:
  "\<not> already_rolled_true lower_cost_state \<and>
   \<not> isnan (if True then Fin 0 else squaredNorm [Fin 0]) \<and>
   sc_less (Fin 1) (last_err2 (out lower_cost_state)) \<and>
   \<not> last (successes (out (snd (GN_check_step (vec_trait 1) default_Options (Fin 1) [Fin 0]
        [[Fin (- 1)]] [Fin 1] True lower_cost_state)))) \<and>
   X (snd (GN_check_step (vec_trait 1) default_Options (Fin 1) [Fin 0]
        [[Fin (- 1)]] [Fin 1] True lower_cost_state)) = [Fin 1] \<and>
   num_failures (out (snd (GN_check_step (vec_trait 1) default_Options (Fin 1) [Fin 0]
        [[Fin (- 1)]] [Fin 1] True lower_cost_state))) = 2 \<and>
   num_consec_failures (out (snd (GN_check_step (vec_trait 1) default_Options (Fin 1) [Fin 0]
        [[Fin (- 1)]] [Fin 1] True lower_cost_state))) = 2"
proof -
  have inv: "already_rolled_true lower_cost_state \<longrightarrow>
      X lower_cost_state = X_last_good lower_cost_state"
    by (simp add: lower_cost_state_def)
  have nonan: "\<not> isnan (if True then Fin 0 else squaredNorm [Fin 0])"
    by simp
  have res: "GN_check_step (vec_trait 1) default_Options (Fin 1) [Fin 0]
        [[Fin (- 1)]] [Fin 1] True lower_cost_state =
      (fst (GN_check_step (vec_trait 1) default_Options (Fin 1) [Fin 0]
        [[Fin (- 1)]] [Fin 1] True lower_cost_state),
       snd (GN_check_step (vec_trait 1) default_Options (Fin 1) [Fin 0]
        [[Fin (- 1)]] [Fin 1] True lower_cost_state))"
    by simp
  from GN_step_accept_or_rollback [OF inv nonan res] inv
  show ?thesis
    by (simp add: lower_cost_state_def)
qed


text \<open>
  The narrowing is visible in the decisions: the error \<open>1 - 2^-30\<close> is stored as the
  \<^verbatim>\<open>float\<close> 1, so the same error is strictly lower than \<^verbatim>\<open>out.last_err2\<close> in every
  later iteration and every step is accepted, until the iteration budget (here 2) is used up.
\<close>

lemma GN_narrowed_error_accepted_again:
  "GN la1 (vec_trait 1) [Fin 1] acc_below_one (default_Options\<lparr>opt_num_iters := 2\<rparr>) =
     Some (\<lparr>last_err2 = Fin 1, stop_reason = kMaxIters, num_residuals = 1, num_iters = 3,
             num_failures = 0, num_consec_failures = 0, last_JtJ = [[Fin 1]],
             errs2 = [Fin 1, Fin 1, Fin 1], deltas2 = [Fin 2, Fin 1, Fin 1, Fin 1],
             successes = [True, True, True, True]\<rparr>, [Fin (- 2)])"
  by code_simp

subsection \<open>Non-finite values\<close>

text \<open>
  C2. The driver does not do what the claim says. With default options, a gradient that is
  NaN in the first iteration makes the squared norm of the step NaN; the run then leaves the
  loop at once, with the stop reason still \<^verbatim>\<open>kMaxIters\<close> and \<^verbatim>\<open>Succeeded()\<close> true. An
  error that is NaN is not looked at: the iteration is a failed step and the run stops with
  \<^verbatim>\<open>kMaxConsecFails\<close>, \<^verbatim>\<open>Succeeded()\<close> true.
\<close>

theorem GN_nan_not_reported:
  "GN la1 (vec_trait 1) [Fin 1] acc_nan_grad default_Options =
     Some (\<lparr>last_err2 = FLT_MAX, stop_reason = kMaxIters, num_residuals = 1, num_iters = 0,
             num_failures = 0, num_consec_failures = 0, last_JtJ = [[Fin 0]],
             errs2 = [], deltas2 = [Fin 2], successes = [True]\<rparr>, [Fin 1]) \<and>
   Succeeded (fst (the (GN la1 (vec_trait 1) [Fin 1] acc_nan_grad default_Options))) \<and>
   GN la1 (vec_trait 1) [Fin 1] acc_nan_cost default_Options =
     Some (\<lparr>last_err2 = FLT_MAX, stop_reason = kMaxConsecFails, num_residuals = 1,
             num_iters = 0, num_failures = 1, num_consec_failures = 1, last_JtJ = [[Fin 0]],
             errs2 = [NaN], deltas2 = [Fin 2, Fin 1], successes = [True, False]\<rparr>, [Fin 1]) \<and>
   Succeeded (fst (the (GN la1 (vec_trait 1) [Fin 1] acc_nan_cost default_Options)))"
proof -
  have g: "GN la1 (vec_trait 1) [Fin 1] acc_nan_grad default_Options =
     Some (\<lparr>last_err2 = FLT_MAX, stop_reason = kMaxIters, num_residuals = 1, num_iters = 0,
             num_failures = 0, num_consec_failures = 0, last_JtJ = [[Fin 0]],
             errs2 = [], deltas2 = [Fin 2], successes = [True]\<rparr>, [Fin 1])"
    by code_simp
  have c: "GN la1 (vec_trait 1) [Fin 1] acc_nan_cost default_Options =
     Some (\<lparr>last_err2 = FLT_MAX, stop_reason = kMaxConsecFails, num_residuals = 1,
             num_iters = 0, num_failures = 1, num_consec_failures = 1, last_JtJ = [[Fin 0]],
             errs2 = [NaN], deltas2 = [Fin 2, Fin 1], successes = [True, False]\<rparr>, [Fin 1])"
    by code_simp
  from g c show ?thesis by (simp add: Succeeded_def)
qed


subsection \<open>The accumulation-function adapter\<close>

text \<open>
  C1, as the claim states it, fails: for the residual vector \<open>(3, 4)\<close> the adapter of
  \<^verbatim>\<open>SolverGN\<close> returns the cost 5, the norm, and not 25, the squared norm.
\<close>

theorem GetAccFunc_norm_counterexample:
  "SolverGN_GetAccFunc res_3_4 [Fin 0] [Fin 0] [[Fin 0]] = ((Fin 5, 2), [Fin 0], [[Fin 0]]) \<and>
   squaredNorm [Fin 3, Fin 4] = Fin 25 \<and>
   fst (fst (SolverGN_GetAccFunc res_3_4 [Fin 0] [Fin 0] [[Fin 0]])) \<noteq>
     squaredNorm [Fin 3, Fin 4]"
  by (simp add: SolverGN_GetAccFunc_def norm_l2_def squaredNorm_def sc_sum_def sqrt_25)

text \<open>
  C1, amended. For a user function whose raw return is a vector or matrix, the adapter of
  \<^verbatim>\<open>SolverGN\<close> returns the L2 (Frobenius) norm of the coefficients as cost, that is the
  non-negative square root of the squared norm (for finite coefficients its square is the
  squared norm), and the number of coefficients as residual count. The adapter of
  \<^verbatim>\<open>SolverGD\<close> does not accept such a return: its \<^verbatim>\<open>static_assert\<close> rejects it.
\<close>

theorem GetAccFunc_vector:
  assumes gn: "res_func x grad H = (RawMatrix cs, grad', H')"
      and gd: "acc x1 grad1 = (RawMatrix cs1, grad1')"
  shows "SolverGN_GetAccFunc res_func x grad H = ((norm_l2 cs, int (length cs)), grad', H') \<and>
     norm_l2 cs = sc_sqrt (squaredNorm cs) \<and>
     (list_all isfinite cs \<longrightarrow>
        sc_mul (norm_l2 cs) (norm_l2 cs) = squaredNorm cs \<and> sc_le (Fin 0) (norm_l2 cs)) \<and>
     SolverGD_GetAccFunc acc x1 grad1 =
       Inl (StaticAssert ''Your cost function must return one or a pair of scalars'')"
  using gn gd norm_l2_finite [of cs]
  by (simp add: SolverGN_GetAccFunc_def SolverGD_GetAccFunc_def norm_l2_def)

theorem GetAccFunc_vector_witness:
  "res_3_4 [Fin 0] [Fin 0] [[Fin 0]] = (RawMatrix [Fin 3, Fin 4], [Fin 0], [[Fin 0]]) \<and>
   acc_3_4 [Fin 0] [Fin 0] = (RawMatrix [Fin 3, Fin 4], [Fin 0]) \<and>
   list_all isfinite [Fin 3, Fin 4] \<and>
   SolverGN_GetAccFunc res_3_4 [Fin 0] [Fin 0] [[Fin 0]] = ((Fin 5, 2), [Fin 0], [[Fin 0]]) \<and>
   sc_mul (Fin 5) (Fin 5) = squaredNorm [Fin 3, Fin 4] \<and>
   SolverGD_GetAccFunc acc_3_4 [Fin 0] [Fin 0] =
     Inl (StaticAssert ''Your cost function must return one or a pair of scalars'')"
proof -
  have gn: "res_3_4 [Fin 0] [Fin 0] [[Fin 0]] = (RawMatrix [Fin 3, Fin 4], [Fin 0], [[Fin 0]])"
    by simp
  have gd: "acc_3_4 [Fin 0] [Fin 0] = (RawMatrix [Fin 3, Fin 4], [Fin 0])"
    by simp
  have n: "norm_l2 [Fin 3, Fin 4] = Fin 5"
    by (simp add: norm_l2_def squaredNorm_def sc_sum_def sqrt_25)
  have q: "squaredNorm [Fin 3, Fin 4] = Fin 25"
    by (simp add: squaredNorm_def sc_sum_def)
  from GetAccFunc_vector [where res_func = res_3_4 and acc = acc_3_4, OF gn gd] gn gd
  show ?thesis by (simp add: n q)
qed

subsection \<open>\<^verbatim>\<open>SolverGN::Solve\<close>\<close>

text \<open>
  C9. \<^verbatim>\<open>Solve\<close> returns no value when the last recorded residual count is zero; on the
  LDLT path (selected by \<^verbatim>\<open>use_ldlt\<close>, or by a sparse Hessian) it returns no value exactly
  when \<^verbatim>\<open>SolveLDLT\<close> returns none; on the explicit-inverse path with compile-time dimension 1,
  a Hessian with \<open>H(0,0)\<close> at or below the epsilon gives the zero step, not a failure.
\<close>

theorem SolverGN_Solve_failure:
  "(gn_nerr s = 0 \<longrightarrow> SolverGN_Solve mb ht s = None) \<and>
   (gn_nerr s \<noteq> 0 \<and> (use_ldlt (gn_options s) \<or> is_sparse_matrix ht) \<longrightarrow>
      (SolverGN_Solve mb ht s = None \<longleftrightarrow> SolveLDLT mb (gn_H s) (gn_grad s) = None)) \<and>
   (gn_nerr s \<noteq> 0 \<and> \<not> use_ldlt (gn_options s) \<and> \<not> is_sparse_matrix ht \<and>
    H_Dims ht = Some 1 \<and> sc_le (coeff (gn_H s) 0 0) (FloatEpsilon mb) \<longrightarrow>
      SolverGN_Solve mb ht s = Some (vec_zero (length (gn_grad s))))"
  by (auto simp add: SolverGN_Solve_def dest: sc_le_not_less split: option.splits)

theorem SolverGN_Solve_failure_witness:
  "gn_nerr (solver1\<lparr>gn_nerr := 0\<rparr>) = 0 \<and>
   SolverGN_Solve mb1 dense1 (solver1\<lparr>gn_nerr := 0\<rparr>) = None \<and>
   gn_nerr solver1 \<noteq> 0 \<and> use_ldlt (gn_options solver1) \<and>
   SolveLDLT mb1 (gn_H solver1) (gn_grad solver1) = None \<and>
   SolverGN_Solve mb1 dense1 solver1 = None \<and>
   \<not> use_ldlt (gn_options (solver1\<lparr>gn_options := solver_options\<lparr>use_ldlt := False\<rparr>\<rparr>)) \<and>
   \<not> is_sparse_matrix dense1 \<and> H_Dims dense1 = Some 1 \<and>
   sc_le (coeff (gn_H solver1) 0 0) (FloatEpsilon mb1) \<and>
   SolverGN_Solve mb1 dense1 (solver1\<lparr>gn_options := solver_options\<lparr>use_ldlt := False\<rparr>\<rparr>) =
     Some [Fin 0]"
  using SolverGN_Solve_failure [of "solver1\<lparr>gn_nerr := 0\<rparr>" mb1 dense1]
    SolverGN_Solve_failure [of solver1 mb1 dense1]
    SolverGN_Solve_failure
      [of "solver1\<lparr>gn_options := solver_options\<lparr>use_ldlt := False\<rparr>\<rparr>" mb1 dense1]
  by (simp add: solver1_def solver_options_def mb1_def dense1_def coeff_def sc_le_def
      vec_zero_def)


subsection \<open>Gradient clipping\<close>

text \<open>
  C10, as the claim states it, fails twice. With the clipping value \<open>c = -1\<close>, which is not
  0, a \<^verbatim>\<open>Build\<close> of \<^verbatim>\<open>SolverGD\<close> stores the gradient \<open>(-1)\<close>, and \<open>-1\<close> is not in
  \<open>[-c, c] = [1, -1]\<close>. With \<open>c = 1\<close>, a \<^verbatim>\<open>Build\<close> of \<^verbatim>\<open>SolverGN\<close> whose function
  reports no residual returns before clamping and leaves the gradient \<open>(5)\<close> stored.
\<close>

theorem Clamp_counterexample:
  "SolverGD_Build (Some 1) (vec_trait 1) [Fin 0] acc_grad_0 True (gd_solver (Fin (- 1))) =
     Inr (True, \<lparr> gd_options = \<lparr> gd_grad_clipping = Fin (- 1), lr = Fin 1 \<rparr>,
                  gd_grad = [Fin (- 1)], gd_err = Fin 1, gd_nerr = 1 \<rparr>) \<and>
   \<not> sc_le (sc_neg (Fin (- 1))) (Fin (- 1)) \<and>
   SolverGN_Build dense1 (vec_trait 1) [Fin 0] res_none_grad_5 True clipping_solver =
     (False, \<lparr> gn_options = solver_options\<lparr>grad_clipping := Fin 1\<rparr>, gn_H = [[Fin 0]],
               gn_grad = [Fin 5], gn_err = Fin 0, gn_nerr = 0 \<rparr>) \<and>
   \<not> sc_le (Fin 5) (Fin 1)"
  by (simp add: SolverGD_Build_def SolverGD_Accumulate_def SolverGD_GetAccFunc_def
      SolverGD_clear_def SolverGD_ResizeIfNeeded_def gd_solver_def Clamp_def sc_min_def
      sc_max_def sc_le_def SolverGN_Build_def SolverGN_Accumulate_def SolverGN_GetAccFunc_def
      SolverGN_clear_def SolverGN_ResizeIfNeeded_def clipping_solver_def solver1_def
      solver_options_def dense1_def)

text \<open>
  C10, amended. With \<open>c = 0\<close> \<^verbatim>\<open>Clamp\<close> leaves the gradient unchanged and returns
  \<open>false\<close>. With \<open>c > 0\<close> it returns \<open>true\<close> and every coefficient that is not NaN lies
  in \<open>[-c, c]\<close> afterwards; so it is for the gradient stored after every \<^verbatim>\<open>Build\<close> of
  \<^verbatim>\<open>SolverGN\<close> that recorded at least one residual, and after every \<^verbatim>\<open>Build\<close> of
  \<^verbatim>\<open>SolverGD\<close>.
\<close>

theorem Clamp_gradient_range:
  "(sc_eq c (Fin 0) \<longrightarrow> Clamp g c = (False, g)) \<and>
   (sc_less (Fin 0) c \<longrightarrow> fst (Clamp g c) \<and>
      list_all (\<lambda>a. isnan a \<or> (sc_le (sc_neg c) a \<and> sc_le a c)) (snd (Clamp g c))) \<and>
   (SolverGN_Build ht pt x res_func rc s = (ok, s') \<and> 0 < gn_nerr s' \<and>
    sc_less (Fin 0) (grad_clipping (gn_options s)) \<longrightarrow>
      list_all (\<lambda>a. isnan a \<or> (sc_le (sc_neg (grad_clipping (gn_options s))) a \<and>
                                sc_le a (grad_clipping (gn_options s)))) (gn_grad s')) \<and>
   (SolverGD_Build D pt1 x1 acc rc1 t = Inr (ok1, t') \<and>
    sc_less (Fin 0) (gd_grad_clipping (gd_options t)) \<longrightarrow>
      list_all (\<lambda>a. isnan a \<or> (sc_le (sc_neg (gd_grad_clipping (gd_options t))) a \<and>
                                sc_le a (gd_grad_clipping (gd_options t)))) (gd_grad t'))"
proof (intro conjI impI)
  assume "sc_eq c (Fin 0)"
  then show "Clamp g c = (False, g)" by (simp add: Clamp_def)
next
  assume "sc_less (Fin 0) c"
  then have "\<not> sc_eq c (Fin 0)" by (cases c) auto
  then show "fst (Clamp g c)" by (simp add: Clamp_def)
next
  assume "sc_less (Fin 0) c"
  then show "list_all (\<lambda>a. isnan a \<or> (sc_le (sc_neg c) a \<and> sc_le a c)) (snd (Clamp g c))"
    by (rule Clamp_range)
next
  assume a: "SolverGN_Build ht pt x res_func rc s = (ok, s') \<and> 0 < gn_nerr s' \<and>
    sc_less (Fin 0) (grad_clipping (gn_options s))"
  then show "list_all (\<lambda>a. isnan a \<or> (sc_le (sc_neg (grad_clipping (gn_options s))) a \<and>
                                sc_le a (grad_clipping (gn_options s)))) (gn_grad s')"
    using SolverGN_Build_grad [of ht pt x res_func rc s ok s'] Clamp_range
    by simp
next
  assume a: "SolverGD_Build D pt1 x1 acc rc1 t = Inr (ok1, t') \<and>
    sc_less (Fin 0) (gd_grad_clipping (gd_options t))"
  then show "list_all (\<lambda>a. isnan a \<or> (sc_le (sc_neg (gd_grad_clipping (gd_options t))) a \<and>
                                sc_le a (gd_grad_clipping (gd_options t)))) (gd_grad t')"
    using SolverGD_Build_grad [of D pt1 x1 acc rc1 t ok1 t'] Clamp_range
    by auto
qed

theorem Clamp_gradient_range_witness:
  "sc_eq (Fin 0) (Fin 0) \<and> Clamp [Fin 5] (Fin 0) = (False, [Fin 5]) \<and>
   sc_less (Fin 0) (Fin 1) \<and>
   Clamp [Fin 5, Fin (- 7), NaN] (Fin 1) = (True, [Fin 1, Fin (- 1), NaN]) \<and>
   list_all (\<lambda>a. isnan a \<or> (sc_le (sc_neg (Fin 1)) a \<and> sc_le a (Fin 1)))
     (snd (Clamp [Fin 5, Fin (- 7), NaN] (Fin 1))) \<and>
   SolverGN_Build dense1 (vec_trait 1) [Fin 0] res_one_grad_5 True clipping_solver =
     (True, \<lparr> gn_options = solver_options\<lparr>grad_clipping := Fin 1\<rparr>, gn_H = [[Fin 1]],
              gn_grad = [Fin 1], gn_err = Fin 1, gn_nerr = 1 \<rparr>) \<and>
   sc_less (Fin 0) (grad_clipping (gn_options clipping_solver)) \<and>
   list_all (\<lambda>a. isnan a \<or> (sc_le (sc_neg (Fin 1)) a \<and> sc_le a (Fin 1))) [Fin 1] \<and>
   SolverGD_Build (Some 1) (vec_trait 1) [Fin 0] acc_grad_5 True (gd_solver (Fin 1)) =
     Inr (True, \<lparr> gd_options = \<lparr> gd_grad_clipping = Fin 1, lr = Fin 1 \<rparr>,
                  gd_grad = [Fin 1], gd_err = Fin 1, gd_nerr = 1 \<rparr>) \<and>
   sc_less (Fin 0) (gd_grad_clipping (gd_options (gd_solver (Fin 1))))"
proof -
  have gn: "SolverGN_Build dense1 (vec_trait 1) [Fin 0] res_one_grad_5 True clipping_solver =
     (True, \<lparr> gn_options = solver_options\<lparr>grad_clipping := Fin 1\<rparr>, gn_H = [[Fin 1]],
              gn_grad = [Fin 1], gn_err = Fin 1, gn_nerr = 1 \<rparr>)"
    by (simp add: SolverGN_Build_def SolverGN_Accumulate_def SolverGN_GetAccFunc_def
      SolverGN_clear_def SolverGN_ResizeIfNeeded_def clipping_solver_def solver1_def
      solver_options_def dense1_def Clamp_def sc_min_def sc_max_def diagonal_def coeff_def)
  have gd: "SolverGD_Build (Some 1) (vec_trait 1) [Fin 0] acc_grad_5 True (gd_solver (Fin 1)) =
     Inr (True, \<lparr> gd_options = \<lparr> gd_grad_clipping = Fin 1, lr = Fin 1 \<rparr>,
                  gd_grad = [Fin 1], gd_err = Fin 1, gd_nerr = 1 \<rparr>)"
    by (simp add: SolverGD_Build_def SolverGD_Accumulate_def SolverGD_GetAccFunc_def
      SolverGD_clear_def SolverGD_ResizeIfNeeded_def gd_solver_def Clamp_def sc_min_def
      sc_max_def)
  have c: "Clamp [Fin 5, Fin (- 7), NaN] (Fin 1) = (True, [Fin 1, Fin (- 1), NaN])"
    by (simp add: Clamp_def sc_min_def sc_max_def)
  have z: "Clamp [Fin 5] (Fin 0) = (False, [Fin 5])"
    using Clamp_gradient_range [where c = "Fin 0" and g = "[Fin 5]", THEN conjunct1]
    by simp
  from Clamp_gradient_range [where c = "Fin 1" and g = "[Fin 5, Fin (- 7), NaN]"
      and ht = dense1 and pt = "vec_trait 1" and x = "[Fin 0]" and res_func = res_one_grad_5
      and rc = True and s = clipping_solver and D = "Some 1" and ?pt1.0 = "vec_trait 1"
      and ?x1.0 = "[Fin 0]" and acc = acc_grad_5 and ?rc1.0 = True and t = "gd_solver (Fin 1)"
      and ok = True and ?ok1.0 = True
      and s' = "\<lparr> gn_options = solver_options\<lparr>grad_clipping := Fin 1\<rparr>, gn_H = [[Fin 1]],
              gn_grad = [Fin 1], gn_err = Fin 1, gn_nerr = 1 \<rparr>"
      and t' = "\<lparr> gd_options = \<lparr> gd_grad_clipping = Fin 1, lr = Fin 1 \<rparr>,
                  gd_grad = [Fin 1], gd_err = Fin 1, gd_nerr = 1 \<rparr>"]
    gn gd c z
  show ?thesis
    by (simp add: clipping_solver_def solver_options_def gd_solver_def)
qed

subsection \<open>Upper-triangle Hessians\<close>

text \<open>
  C8. With an upper-triangle-only Hessian and the explicit inverse selected, the lower
  triangle is filled from the upper one before the matrix is inverted. In the driver
  \<^verbatim>\<open>GN\<close>, whenever the linear solve runs, the step is computed from the inverse of the
  filled matrix. In \<^verbatim>\<open>SolverGN\<close>, a successful \<^verbatim>\<open>Build\<close> stores the filled matrix, and
  \<^verbatim>\<open>Solve\<close> inverts what is stored. The filled matrix of a square matrix is symmetric and
  keeps the upper triangle.
\<close>

theorem fill_lower_before_inverse:
  "(\<not> ldlt options \<and> \<not> JtJ_is_full options \<and> \<not> skip_solver \<and>
    unat (num_consec_failures ou) \<le> unat (max_tries options) \<longrightarrow>
      GN_solve la options dX0 skip_solver JtJ Jt_res ou =
        (mat_vec (mat_neg (inverse la (fill_lower JtJ))) Jt_res, fill_lower JtJ, False, ou)) \<and>
   (SolverGN_Build ht pt x res_func rc s = (True, s') \<and> \<not> H_is_full (gn_options s) \<and>
    \<not> use_ldlt (gn_options s) \<longrightarrow>
      gn_H s' = fill_lower (gn_H (snd (SolverGN_Accumulate res_func x
        (if rc then SolverGN_clear (snd (SolverGN_ResizeIfNeeded ht pt x s)) else s)))) \<and>
      (\<not> is_sparse_matrix ht \<and> H_Dims ht \<noteq> Some 1 \<longrightarrow>
         SolverGN_Solve mb ht s' =
           Some (mat_vec (mat_neg (mat_inverse mb (gn_H s'))) (gn_grad s')))) \<and>
   (is_square n M \<longrightarrow> is_square n (fill_lower M) \<and>
      (\<forall>i<n. \<forall>j<n. coeff (fill_lower M) i j = coeff (fill_lower M) j i) \<and>
      (\<forall>i<n. \<forall>j<n. i \<le> j \<longrightarrow> coeff (fill_lower M) i j = coeff M i j))"
proof (intro conjI impI)
  assume "\<not> ldlt options \<and> \<not> JtJ_is_full options \<and> \<not> skip_solver \<and>
    unat (num_consec_failures ou) \<le> unat (max_tries options)"
  then show "GN_solve la options dX0 skip_solver JtJ Jt_res ou =
        (mat_vec (mat_neg (inverse la (fill_lower JtJ))) Jt_res, fill_lower JtJ, False, ou)"
    by (simp add: GN_solve_def Let_def)
next
  assume a: "SolverGN_Build ht pt x res_func rc s = (True, s') \<and> \<not> H_is_full (gn_options s) \<and>
    \<not> use_ldlt (gn_options s)"
  let ?s1 = "if rc then SolverGN_clear (snd (SolverGN_ResizeIfNeeded ht pt x s)) else s"
  let ?a = "SolverGN_Accumulate res_func x ?s1"
  have o: "gn_options (snd ?a) = gn_options s"
    by (simp add: SolverGN_Accumulate_fields SolverGN_clear_options
        SolverGN_ResizeIfNeeded_options)
  let ?s3 = "(snd ?a)\<lparr>gn_grad := snd (Clamp (gn_grad (snd ?a)) (grad_clipping (gn_options (snd ?a))))\<rparr>"
  from a o have s': "s' = ?s3\<lparr>gn_H := fill_lower (gn_H ?s3)\<rparr>" and f: "fst ?a"
    by (auto simp add: SolverGN_Build_def Let_def split_def split: if_splits)
  from s' show "gn_H s' = fill_lower (gn_H (snd ?a))" by simp
  {
    assume d: "\<not> is_sparse_matrix ht \<and> H_Dims ht \<noteq> Some 1"
    from f have "0 < gn_nerr (snd ?a)" by (simp add: SolverGN_Accumulate_fields(2))
    with s' have n: "gn_nerr s' \<noteq> 0" by simp
    from s' o a have u: "\<not> use_ldlt (gn_options s')" by simp
    from n u d show "SolverGN_Solve mb ht s' =
           Some (mat_vec (mat_neg (mat_inverse mb (gn_H s'))) (gn_grad s'))"
      by (simp add: SolverGN_Solve_def)
  }
next
  assume "is_square n M"
  then show "is_square n (fill_lower M)" by (rule is_square_fill_lower)
next
  assume "is_square n M"
  then show "\<forall>i<n. \<forall>j<n. coeff (fill_lower M) i j = coeff (fill_lower M) j i"
    using fill_lower_symmetric by blast
next
  assume "is_square n M"
  then show "\<forall>i<n. \<forall>j<n. i \<le> j \<longrightarrow> coeff (fill_lower M) i j = coeff M i j"
    using fill_lower_upper by blast
qed

theorem fill_lower_before_inverse_witness:
  "\<not> ldlt (default_Options\<lparr>ldlt := False, JtJ_is_full := False\<rparr>) \<and>
   \<not> JtJ_is_full (default_Options\<lparr>ldlt := False, JtJ_is_full := False\<rparr>) \<and>
   unat (num_consec_failures (out later_state)) \<le>
     unat (max_tries (default_Options\<lparr>ldlt := False, JtJ_is_full := False\<rparr>)) \<and>
   GN_solve la2 (default_Options\<lparr>ldlt := False, JtJ_is_full := False\<rparr>) [Fin 0, Fin 0] False
       upper_JtJ [Fin 5, Fin 5] (out later_state) =
     ([Fin (- 2), Fin (- 1)], [[Fin 2, Fin 1], [Fin 1, Fin 3]], False, out later_state) \<and>
   SolverGN_Build dense2 (vec_trait 2) [Fin 0, Fin 0] res_upper True upper_solver =
     (True, \<lparr> gn_options = solver_options\<lparr>use_ldlt := False, H_is_full := False\<rparr>,
         gn_H = [[Fin 2, Fin 1], [Fin 1, Fin 3]], gn_grad = [Fin 5, Fin 5], gn_err = Fin 1,
         gn_nerr = 1 \<rparr>) \<and>
   \<not> H_is_full (gn_options upper_solver) \<and> \<not> use_ldlt (gn_options upper_solver) \<and>
   \<not> is_sparse_matrix dense2 \<and> H_Dims dense2 \<noteq> Some 1 \<and>
   SolverGN_Solve mb2 dense2
       \<lparr> gn_options = solver_options\<lparr>use_ldlt := False, H_is_full := False\<rparr>,
         gn_H = [[Fin 2, Fin 1], [Fin 1, Fin 3]], gn_grad = [Fin 5, Fin 5], gn_err = Fin 1,
         gn_nerr = 1 \<rparr> = Some [Fin (- 2), Fin (- 1)] \<and>
   is_square 2 upper_JtJ \<and>
   fill_lower upper_JtJ = [[Fin 2, Fin 1], [Fin 1, Fin 3]] \<and>
   coeff (fill_lower upper_JtJ) 1 0 = coeff upper_JtJ 0 1"
proof -
  have fl: "fill_lower upper_JtJ = [[Fin 2, Fin 1], [Fin 1, Fin 3]]"
    by (simp add: fill_lower_def upper_JtJ_def coeff_def upt_rec)
  have sq: "is_square 2 upper_JtJ"
    by (simp add: is_square_def upper_JtJ_def)
  have b: "SolverGN_Build dense2 (vec_trait 2) [Fin 0, Fin 0] res_upper True upper_solver =
      (True, \<lparr> gn_options = solver_options\<lparr>use_ldlt := False, H_is_full := False\<rparr>,
         gn_H = [[Fin 2, Fin 1], [Fin 1, Fin 3]], gn_grad = [Fin 5, Fin 5], gn_err = Fin 1,
         gn_nerr = 1 \<rparr>)"
    by (simp add: SolverGN_Build_def SolverGN_Accumulate_def SolverGN_GetAccFunc_def
      SolverGN_clear_def SolverGN_ResizeIfNeeded_def upper_solver_def
      solver_options_def dense2_def Clamp_def fl)
  have o: "\<not> ldlt (default_Options\<lparr>ldlt := False, JtJ_is_full := False\<rparr>) \<and>
      \<not> JtJ_is_full (default_Options\<lparr>ldlt := False, JtJ_is_full := False\<rparr>) \<and> \<not> False \<and>
      unat (num_consec_failures (out later_state)) \<le>
        unat (max_tries (default_Options\<lparr>ldlt := False, JtJ_is_full := False\<rparr>))"
    by (simp add: later_state_def max_tries_def default_Options_def)
  have u: "\<not> H_is_full (gn_options upper_solver) \<and> \<not> use_ldlt (gn_options upper_solver)"
    by (simp add: upper_solver_def)
  have d: "\<not> is_sparse_matrix dense2 \<and> H_Dims dense2 \<noteq> Some 1"
    by (simp add: dense2_def)
  have inv: "mat_vec (mat_neg (la2_inverse [[Fin 2, Fin 1], [Fin 1, Fin 3]])) [Fin 5, Fin 5] =
      [Fin (- 2), Fin (- 1)]"
    by (simp add: mat_vec_def mat_neg_def dot_def sc_sum_def sc_sub_def)
  note T = fill_lower_before_inverse [where options = "default_Options\<lparr>ldlt := False,
        JtJ_is_full := False\<rparr>" and skip_solver = False and ou = "out later_state"
      and la = la2 and ?dX0.0 = "[Fin 0, Fin 0]" and JtJ = upper_JtJ and Jt_res = "[Fin 5, Fin 5]"
      and ht = dense2 and pt = "vec_trait 2" and x = "[Fin 0, Fin 0]" and res_func = res_upper
      and rc = True and s = upper_solver and mb = mb2 and n = 2 and M = upper_JtJ
      and s' = "\<lparr> gn_options = solver_options\<lparr>use_ldlt := False, H_is_full := False\<rparr>,
         gn_H = [[Fin 2, Fin 1], [Fin 1, Fin 3]], gn_grad = [Fin 5, Fin 5], gn_err = Fin 1,
         gn_nerr = 1 \<rparr>"]
  have "GN_solve la2 (default_Options\<lparr>ldlt := False, JtJ_is_full := False\<rparr>)
       [Fin 0, Fin 0] False upper_JtJ [Fin 5, Fin 5] (out later_state) =
     (mat_vec (mat_neg (inverse la2 (fill_lower upper_JtJ))) [Fin 5, Fin 5],
      fill_lower upper_JtJ, False, out later_state)"
    using T [THEN conjunct1, THEN mp, OF o] .
  then have gs: "GN_solve la2 (default_Options\<lparr>ldlt := False, JtJ_is_full := False\<rparr>)
       [Fin 0, Fin 0] False upper_JtJ [Fin 5, Fin 5] (out later_state) =
     ([Fin (- 2), Fin (- 1)], [[Fin 2, Fin 1], [Fin 1, Fin 3]], False, out later_state)"
    by (simp only: fl la2_def linalg.simps inv)
  have "SolverGN_Solve mb2 dense2
       \<lparr> gn_options = solver_options\<lparr>use_ldlt := False, H_is_full := False\<rparr>,
         gn_H = [[Fin 2, Fin 1], [Fin 1, Fin 3]], gn_grad = [Fin 5, Fin 5], gn_err = Fin 1,
         gn_nerr = 1 \<rparr> =
      Some (mat_vec (mat_neg (mat_inverse mb2 [[Fin 2, Fin 1], [Fin 1, Fin 3]]))
        [Fin 5, Fin 5])"
    using T [THEN conjunct2, THEN conjunct1, THEN mp, OF conjI [OF b u], THEN conjunct2,
        THEN mp, OF d]
    by (simp only: SolverGN.simps)
  then have sv: "SolverGN_Solve mb2 dense2
       \<lparr> gn_options = solver_options\<lparr>use_ldlt := False, H_is_full := False\<rparr>,
         gn_H = [[Fin 2, Fin 1], [Fin 1, Fin 3]], gn_grad = [Fin 5, Fin 5], gn_err = Fin 1,
         gn_nerr = 1 \<rparr> = Some [Fin (- 2), Fin (- 1)]"
    by (simp only: mb2_def math_backend.simps inv)
  have "coeff (fill_lower upper_JtJ) 1 0 = coeff (fill_lower upper_JtJ) 0 1"
      and "coeff (fill_lower upper_JtJ) 0 1 = coeff upper_JtJ 0 1"
    using T [THEN conjunct2, THEN conjunct2, THEN mp, OF sq] by simp_all
  then have sy: "coeff (fill_lower upper_JtJ) 1 0 = coeff upper_JtJ 0 1"
    by simp
  from o u d b sq gs sv fl sy show ?thesis
    by simp
qed

end
